theory Spec2Isabelle
  imports Main "HOL-Library.Char_ord" "HOL-Library.List_Lexorder" "HOL-Library.Word"
begin

section \<open>Go strings\<close>

text \<open>
  A Go \<^verbatim>\<open>string\<close> is a sequence of bytes, and so is an Isabelle \<^typ>\<open>string\<close>:
  \<^term>\<open>length\<close> is Go's \<^verbatim>\<open>len\<close>, and a byte below \<^verbatim>\<open>0x80\<close>
  (\<^verbatim>\<open>utf8.RuneSelf\<close>) is a rune of its own.
\<close>

definition is_ascii :: "char \<Rightarrow> bool" where
  "is_ascii c = ((of_char c :: nat) < 128)"

definition ascii_lower :: "char \<Rightarrow> char" where
  "ascii_lower c = (if CHR ''A'' \<le> c \<and> c \<le> CHR ''Z'' then char_of ((of_char c :: nat) + 32) else c)"

text \<open>A natural number in decimal, as \<^verbatim>\<open>%d\<close> prints it.\<close>

fun decimal :: "nat \<Rightarrow> string" where
  "decimal n =
     (if n < 10 then [char_of (48 + n)] else decimal (n div 10) @ [char_of (48 + n mod 10)])"

declare decimal.simps [simp del]

text \<open>\<^verbatim>\<open>strings.HasPrefix\<close> and \<^verbatim>\<open>strings.Contains\<close>.\<close>

definition HasPrefix :: "string \<Rightarrow> string \<Rightarrow> bool" where
  "HasPrefix s prefix = (length s \<ge> length prefix \<and> take (length prefix) s = prefix)"

fun Contains :: "string \<Rightarrow> string \<Rightarrow> bool" where
  "Contains [] substr = (substr = [])"
| "Contains (c # s) substr = (HasPrefix (c # s) substr \<or> Contains s substr)"

section \<open>Gadget names (package integration)\<close>

subsection \<open>isValidGadgetName\<close>

text \<open>
  The test applied to each rune \<^verbatim>\<open>r\<close> of the loop
  \<^verbatim>\<open>for _, r := range name\<close>. A byte of \<^verbatim>\<open>0x80\<close> or more belongs to a rune
  of \<^verbatim>\<open>0x80\<close> or more (or decodes to \<^verbatim>\<open>utf8.RuneError\<close>), which fails the test as
  the byte itself does; so the loop is run over the bytes.
\<close>

definition allowed_rune :: "char \<Rightarrow> bool" where
  "allowed_rune r =
     ((CHR ''a'' \<le> r \<and> r \<le> CHR ''z'') \<or> (CHR ''A'' \<le> r \<and> r \<le> CHR ''Z'') \<or>
      (CHR ''0'' \<le> r \<and> r \<le> CHR ''9'') \<or> r = CHR ''-'' \<or> r = CHR ''_'')"

fun valid_runes :: "string \<Rightarrow> bool" where
  "valid_runes [] = True"
| "valid_runes (r # rest) = (if \<not> allowed_rune r then False else valid_runes rest)"

definition isValidGadgetName :: "string \<Rightarrow> bool" where
  "isValidGadgetName name =
     (if \<not> valid_runes name then False else length name > 0 \<and> length name \<le> 50)"

subsection \<open>strings.EqualFold against an ASCII pattern\<close>

text \<open>
  \<^verbatim>\<open>strings.EqualFold(s, t)\<close> of the Go library, for a second argument \<^verbatim>\<open>t\<close> made of
  ASCII bytes (every caller in this package passes an ASCII literal). The result is
  \<^term>\<open>None\<close> when the comparison reaches a byte of \<^verbatim>\<open>t\<close> outside ASCII, which this
  model does not cover.

  \<^verbatim>\<open>ascii_fold_eq\<close> is the comparison of two ASCII bytes: equal, or, once ordered,
  an upper-case letter and its lower-case form.
\<close>

definition ascii_fold_eq :: "char \<Rightarrow> char \<Rightarrow> bool" where
  "ascii_fold_eq sr tr =
     (tr = sr \<or>
      (let lo = (if tr < sr then tr else sr); hi = (if tr < sr then sr else tr)
       in CHR ''A'' \<le> lo \<and> lo \<le> CHR ''Z'' \<and> (of_char hi :: nat) = of_char lo + 32))"

text \<open>
  The loop after the label \<^verbatim>\<open>hasUnicode\<close>: \<^verbatim>\<open>s\<close> is read rune by rune. Under simple
  case folding the only runes outside ASCII that fold to an ASCII letter are
  U+017F (long s, bytes \<^verbatim>\<open>C5 BF\<close>), which folds to \<^verbatim>\<open>s\<close>, and U+212A (Kelvin sign, bytes
  \<^verbatim>\<open>E2 84 AA\<close>), which folds to \<^verbatim>\<open>k\<close>; UTF-8 encodes each rune in one way only, so any
  other byte sequence is a rune (or \<^verbatim>\<open>utf8.RuneError\<close>) that matches no ASCII byte.
\<close>

definition starts_long_s :: "string \<Rightarrow> bool" where
  "starts_long_s s = (take 2 s = [CHR 0xC5, CHR 0xBF])"

definition starts_kelvin :: "string \<Rightarrow> bool" where
  "starts_kelvin s = (take 3 s = [CHR 0xE2, CHR 0x84, CHR 0xAA])"

fun hasUnicode :: "string \<Rightarrow> string \<Rightarrow> bool option" where
  "hasUnicode [] t = Some (t = [])"
| "hasUnicode (c # s) [] = Some False"
| "hasUnicode (c # s) (tr # t) =
     (if \<not> is_ascii tr then None
      else if is_ascii c then (if ascii_fold_eq c tr then hasUnicode s t else Some False)
      else if starts_long_s (c # s) then
        (if tr = CHR ''s'' \<or> tr = CHR ''S'' then hasUnicode (drop 1 s) t else Some False)
      else if starts_kelvin (c # s) then
        (if tr = CHR ''k'' \<or> tr = CHR ''K'' then hasUnicode (drop 2 s) t else Some False)
      else Some False)"

text \<open>The ASCII fast path, which jumps to \<^verbatim>\<open>hasUnicode\<close> at the first byte outside ASCII.\<close>

fun EqualFold :: "string \<Rightarrow> string \<Rightarrow> bool option" where
  "EqualFold (sr # s) (tr # t) =
     (if \<not> (is_ascii sr \<and> is_ascii tr) then hasUnicode (sr # s) (tr # t)
      else if ascii_fold_eq sr tr then EqualFold s t else Some False)"
| "EqualFold [] t = Some (length ([] :: string) = length t)"
| "EqualFold (sr # s) [] = Some (length (sr # s) = length ([] :: string))"

subsection \<open>isSystemGadget\<close>

definition systemGadgets :: "string list" where
  "systemGadgets = [''sysinfo'', ''network-scanner'', ''process'', ''hardware'']"

fun isSystemGadget_loop :: "string \<Rightarrow> string list \<Rightarrow> bool" where
  "isSystemGadget_loop name [] = False"
| "isSystemGadget_loop name (sg # rest) =
     (if EqualFold name sg = Some True then True else isSystemGadget_loop name rest)"

definition isSystemGadget :: "string \<Rightarrow> bool" where
  "isSystemGadget name = isSystemGadget_loop name systemGadgets"


text \<open>The characters \<^verbatim>\<open>[A-Za-z0-9_-]\<close> of the specification, one by one.\<close>

definition name_charset :: "char set" where
  "name_charset =
     set (''ABCDEFGHIJKLMNOPQRSTUVWXYZ'' @ ''abcdefghijklmnopqrstuvwxyz'' @ ''0123456789'' @ ''_-'')"

section \<open>Identity carried by a request (package auth)\<close>

text \<open>
  \<^verbatim>\<open>Claims\<close>: the three fields of the application and the registered claims the code
  sets. A \<^verbatim>\<open>jwt.NumericDate\<close> is a number of seconds since the epoch; an absent date is
  \<^term>\<open>None\<close>.
\<close>

record Claims =
  UserID :: string
  Username :: string
  Roles :: "string list"
  ExpiresAt :: "int option"
  IssuedAt :: "int option"
  NotBefore :: "int option"
  Issuer :: string
  Subject :: string

text \<open>
  The Gin context, as far as the handlers read it: the value stored under
  \<^verbatim>\<open>"user_claims"\<close> by the authentication middleware, if any.
\<close>

record gin_context =
  user_claims :: "Claims option"

definition GetUserFromContext :: "gin_context \<Rightarrow> string + Claims" where
  "GetUserFromContext c =
     (case user_claims c of
        None \<Rightarrow> Inl ''user claims not found in context''
      | Some userClaims \<Rightarrow> Inr userClaims)"

section \<open>Policy store (package rbac)\<close>

text \<open>
  The Casbin enforcer holds the permission rules (\<^verbatim>\<open>p\<close> lines, \<^verbatim>\<open>[sub, obj, act]\<close>) and
  the role grants (\<^verbatim>\<open>g\<close> lines, \<^verbatim>\<open>[user, role]\<close>), each a list of string lists as
  \<^verbatim>\<open>GetPolicy\<close> and \<^verbatim>\<open>GetGroupingPolicy\<close> return them.
\<close>

record enforcer =
  policy :: "string list list"
  grouping :: "string list list"

text \<open>
  The library's decision under \<^verbatim>\<open>DefaultModelConfig\<close>: some rule \<^verbatim>\<open>p\<close> has
  \<^verbatim>\<open>g(r.sub, p.sub) && r.obj == p.obj && r.act == p.act\<close>, where \<^verbatim>\<open>g\<close> holds of equal
  names and of names linked by grants, followed to the depth of 10 of the default role
  manager. With this model and three strings the library reports no error.
\<close>

fun has_link :: "nat \<Rightarrow> string list list \<Rightarrow> string \<Rightarrow> string \<Rightarrow> bool" where
  "has_link 0 g a b = (a = b)"
| "has_link (Suc n) g a b =
     (a = b \<or> list_ex (\<lambda>r. case r of u # v # _ \<Rightarrow> u = a \<and> has_link n g v b | _ \<Rightarrow> False) g)"

definition matches :: "enforcer \<Rightarrow> string \<Rightarrow> string \<Rightarrow> string \<Rightarrow> string list \<Rightarrow> bool" where
  "matches e sub obj act p =
     (case p of psub # pobj # pact # _ \<Rightarrow> has_link 10 (grouping e) sub psub \<and> obj = pobj \<and> act = pact
      | _ \<Rightarrow> False)"

definition enforcer_Enforce :: "enforcer \<Rightarrow> string \<Rightarrow> string \<Rightarrow> string \<Rightarrow> string + bool" where
  "enforcer_Enforce e sub obj act = Inr (list_ex (matches e sub obj act) (policy e))"

text \<open>\<^verbatim>\<open>CasbinManager.Enforce\<close> and \<^verbatim>\<open>CheckUserPermission\<close>: the pair \<^verbatim>\<open>(bool, error)\<close>.\<close>

definition Enforce :: "enforcer \<Rightarrow> string \<Rightarrow> string \<Rightarrow> string \<Rightarrow> string + bool" where
  "Enforce cm subject object action =
     (case enforcer_Enforce cm subject object action of
        Inl err \<Rightarrow> Inl (''failed to enforce policy: '' @ err)
      | Inr allowed \<Rightarrow> Inr allowed)"

definition CheckUserPermission :: "enforcer \<Rightarrow> string \<Rightarrow> string \<Rightarrow> string \<Rightarrow> string + bool" where
  "CheckUserPermission cm user object action = Enforce cm user object action"

subsection \<open>Middleware\<close>

datatype hval = HStr string | HMap "(string \<times> string) list" | HList "string list"

record GadgetExecuteResponse =
  Success :: bool
  Output :: string
  Error :: string
  ExitCode :: int
  GadgetName :: string

datatype body = H "(string \<times> hval) list" | Exec GadgetExecuteResponse | NoBody

record response =
  status :: nat
  content :: body

text \<open>
  \<^verbatim>\<open>CheckPermission\<close>: the user's own permission, then the loop over the roles of the
  token; an error of the store counts as no permission.
\<close>

fun role_allowed :: "enforcer \<Rightarrow> string list \<Rightarrow> string \<Rightarrow> string \<Rightarrow> bool" where
  "role_allowed cm [] object action = False"
| "role_allowed cm (role # rest) object action =
     (case Enforce cm (''role:'' @ role) object action of
        Inr True \<Rightarrow> True
      | _ \<Rightarrow> role_allowed cm rest object action)"

definition CheckPermission :: "enforcer \<Rightarrow> gin_context \<Rightarrow> string \<Rightarrow> string \<Rightarrow> bool" where
  "CheckPermission cm c object action =
     (case GetUserFromContext c of
        Inl err \<Rightarrow> False
      | Inr claims \<Rightarrow>
          (case CheckUserPermission cm (Username claims) object action of
             Inr True \<Rightarrow> True
           | _ \<Rightarrow> role_allowed cm (Roles claims) object action))"

text \<open>
  \<^verbatim>\<open>RequirePermission(object, action)\<close>: \<^term>\<open>None\<close> is \<^verbatim>\<open>c.Next()\<close>, a response is
  \<^verbatim>\<open>c.Abort()\<close> after writing it.
\<close>

fun require_roles :: "enforcer \<Rightarrow> string list \<Rightarrow> string \<Rightarrow> string \<Rightarrow> response option" where
  "require_roles cm [] object action =
     Some \<lparr>status = 403, content = H [(''error'', HStr ''insufficient permissions''),
       (''required'', HMap [(''object'', object), (''action'', action)])]\<rparr>"
| "require_roles cm (role # rest) object action =
     (case Enforce cm (''role:'' @ role) object action of
        Inl err \<Rightarrow> Some \<lparr>status = 500, content = H [(''error'', HStr ''role permission check failed'')]\<rparr>
      | Inr allowed \<Rightarrow> if allowed then None else require_roles cm rest object action)"

definition RequirePermission :: "enforcer \<Rightarrow> string \<Rightarrow> string \<Rightarrow> gin_context \<Rightarrow> response option" where
  "RequirePermission cm object action c =
     (case GetUserFromContext c of
        Inl err \<Rightarrow> Some \<lparr>status = 401, content = H [(''error'', HStr ''authentication required'')]\<rparr>
      | Inr claims \<Rightarrow>
          (case CheckUserPermission cm (Username claims) object action of
             Inl err \<Rightarrow> Some \<lparr>status = 500, content = H [(''error'', HStr ''permission check failed'')]\<rparr>
           | Inr allowed \<Rightarrow>
               if allowed then None else require_roles cm (Roles claims) object action))"

text \<open>
  The roles of a user. \<^verbatim>\<open>GetRolesForUser\<close> of the library gives the roles granted to the
  user directly, as the grants name them, and reports no error with the default role
  manager; \<^verbatim>\<open>GetUserRoles\<close> removes the prefix \<^verbatim>\<open>role:\<close> from a name longer than it.
\<close>

definition GetRolesForUser :: "enforcer \<Rightarrow> string \<Rightarrow> string + string list" where
  "GetRolesForUser e name =
     Inr (concat (map (\<lambda>r. case r of u # v # _ \<Rightarrow> if u = name then [v] else [] | _ \<Rightarrow> [])
                      (grouping e)))"

definition cleanRole :: "string \<Rightarrow> string" where
  "cleanRole role = (if length role > 5 \<and> take 5 role = ''role:'' then drop 5 role else role)"

definition GetUserRoles :: "enforcer \<Rightarrow> string \<Rightarrow> string + string list" where
  "GetUserRoles cm user =
     (case GetRolesForUser cm user of
        Inl err \<Rightarrow> Inl (''failed to get user roles: '' @ err)
      | Inr roles \<Rightarrow> Inr (map cleanRole roles))"

definition CheckUserRole :: "enforcer \<Rightarrow> string \<Rightarrow> string \<Rightarrow> string + bool" where
  "CheckUserRole cm user role =
     (case GetUserRoles cm user of
        Inl err \<Rightarrow> Inl err
      | Inr roles \<Rightarrow> Inr (role \<in> set roles))"

text \<open>\<^verbatim>\<open>RequireRole(requiredRole)\<close> and \<^verbatim>\<open>AdminOnly()\<close>.\<close>

definition RequireRole :: "enforcer \<Rightarrow> string \<Rightarrow> gin_context \<Rightarrow> response option" where
  "RequireRole cm requiredRole c =
     (case GetUserFromContext c of
        Inl err \<Rightarrow> Some \<lparr>status = 401, content = H [(''error'', HStr ''authentication required'')]\<rparr>
      | Inr claims \<Rightarrow>
          (case CheckUserRole cm (Username claims) requiredRole of
             Inl err \<Rightarrow> Some \<lparr>status = 500, content = H [(''error'', HStr ''role check failed'')]\<rparr>
           | Inr hasRole \<Rightarrow>
               if \<not> hasRole then
                 Some \<lparr>status = 403, content = H [(''error'', HStr ''insufficient role''),
                   (''required_role'', HStr requiredRole), (''user_roles'', HList (Roles claims))]\<rparr>
               else None))"

definition AdminOnly :: "enforcer \<Rightarrow> gin_context \<Rightarrow> response option" where
  "AdminOnly cm = RequireRole cm ''admin''"

section \<open>Gadget runner (package integration)\<close>

record GadgetExecuteRequest =
  req_GadgetName :: string
  Args :: "string list"
  Flags :: "string list"

text \<open>
  What \<^verbatim>\<open>cmd.CombinedOutput()\<close> gives back: the combined output and the error, which
  is an \<^verbatim>\<open>*exec.ExitError\<close> with its exit code or another error. The host answers for
  each command line; the commands started are recorded in order.
\<close>

datatype exec_error = ExitError int string | OtherError string

fun error_text :: "exec_error \<Rightarrow> string" where
  "error_text (ExitError code msg) = msg"
| "error_text (OtherError msg) = msg"

type_synonym command = "string \<times> string list"
type_synonym host_exec = "command \<Rightarrow> string \<times> exec_error option"

record GadgetIntegration =
  gadgetBinaryPath :: string
  rbacMiddleware :: enforcer

definition executeGadgetCommand ::
  "GadgetIntegration \<Rightarrow> host_exec \<Rightarrow> string \<Rightarrow> string list \<Rightarrow> string \<Rightarrow>
   GadgetExecuteResponse \<times> command list" where
  "executeGadgetCommand gi run gadgetName args username =
     (let cmdArgs = [''run'', gadgetName] @ args;
          cmd = (gadgetBinaryPath gi, cmdArgs);
          (output, err) = run cmd;
          response = \<lparr>Success = False, Output = output, Error = [], ExitCode = 0,
                      GadgetName = gadgetName\<rparr>
      in (case err of
            Some e \<Rightarrow>
              (case e of
                 ExitError code msg \<Rightarrow>
                   response\<lparr>Success := False, Error := error_text e, ExitCode := code\<rparr>
               | OtherError msg \<Rightarrow>
                   response\<lparr>Success := False, Error := error_text e, ExitCode := - 1\<rparr>)
          | None \<Rightarrow> response\<lparr>Success := True, ExitCode := 0\<rparr>,
          [cmd]))"

text \<open>
  \<^verbatim>\<open>ExecuteGadget\<close>. Its inputs are the route parameter \<^verbatim>\<open>name\<close>, the outcome of
  \<^verbatim>\<open>c.ShouldBindJSON(&req)\<close> (an error text or the bound request) and the context; it
  gives the response written and the commands started. The log records are left out.
\<close>

definition ExecuteGadget ::
  "GadgetIntegration \<Rightarrow> host_exec \<Rightarrow> gin_context \<Rightarrow> string \<Rightarrow> string + GadgetExecuteRequest \<Rightarrow>
   response \<times> command list" where
  "ExecuteGadget gi run c gadgetName bound =
     (if \<not> isValidGadgetName gadgetName then
        (\<lparr>status = 400, content = H [(''error'', HStr ''Invalid gadget name'')]\<rparr>, [])
      else case bound of
        Inl err \<Rightarrow> (\<lparr>status = 400, content = H [(''error'', HStr err)]\<rparr>, [])
      | Inr req \<Rightarrow>
          (case GetUserFromContext c of
             Inl err \<Rightarrow>
               (\<lparr>status = 401, content = H [(''error'', HStr ''Authentication required'')]\<rparr>, [])
           | Inr claims \<Rightarrow>
               if isSystemGadget gadgetName \<and>
                  \<not> CheckPermission (rbacMiddleware gi) c ''system'' ''manage''
               then
                 (\<lparr>status = 403, content = H [(''error'', HStr ''System gadgets require admin permissions''),
                     (''gadget'', HStr gadgetName)]\<rparr>, [])
               else
                 (let (response, started) =
                        executeGadgetCommand gi run gadgetName (Args req) (Username claims)
                  in if Success response
                     then (\<lparr>status = 200, content = Exec response\<rparr>, started)
                     else (\<lparr>status = 500, content = Exec response\<rparr>, started))))"

text \<open>
  \<^verbatim>\<open>ExecuteSystemGadget\<close>, with the same inputs. The error of \<^verbatim>\<open>GetUserFromContext\<close> is
  dropped and the claims are read: without claims in the context the handler panics on
  the \<^verbatim>\<open>nil\<close> pointer before it starts anything, and has written no response
  (\<^term>\<open>None\<close>).
\<close>

definition ExecuteSystemGadget ::
  "GadgetIntegration \<Rightarrow> host_exec \<Rightarrow> gin_context \<Rightarrow> string \<Rightarrow> string + GadgetExecuteRequest \<Rightarrow>
   response option \<times> command list" where
  "ExecuteSystemGadget gi run c gadgetName bound =
     (if \<not> isSystemGadget gadgetName then
        (Some \<lparr>status = 400, content = H [(''error'', HStr ''Not a system gadget'')]\<rparr>, [])
      else case bound of
        Inl err \<Rightarrow> (Some \<lparr>status = 400, content = H [(''error'', HStr err)]\<rparr>, [])
      | Inr req \<Rightarrow>
          (case GetUserFromContext c of
             Inl err \<Rightarrow> (None, [])
           | Inr claims \<Rightarrow>
               (let (response, started) =
                      executeGadgetCommand gi run gadgetName (Args req) (Username claims)
                in if Success response
                   then (Some \<lparr>status = 200, content = Exec response\<rparr>, started)
                   else (Some \<lparr>status = 500, content = Exec response\<rparr>, started))))"

text \<open>
  The two \<^verbatim>\<open>POST\<close> routes of \<^verbatim>\<open>RegisterRoutes\<close>, each the chain of its middleware and
  its handler: \<^verbatim>\<open>/:name/execute\<close> with \<^verbatim>\<open>RequirePermission("gadgets", "execute")\<close> and
  \<^verbatim>\<open>ExecuteGadget\<close>, and \<^verbatim>\<open>/sysinfo/execute\<close> with \<^verbatim>\<open>AdminOnly()\<close> and
  \<^verbatim>\<open>ExecuteSystemGadget\<close>. The second path has no parameter, so \<^verbatim>\<open>c.Param("name")\<close> is
  the empty string there; a panic of its handler is answered by \<^verbatim>\<open>gin.Recovery()\<close>, which
  the server installs, with status 500 and no body.
\<close>

definition execute_route ::
  "GadgetIntegration \<Rightarrow> host_exec \<Rightarrow> gin_context \<Rightarrow> string \<Rightarrow> string + GadgetExecuteRequest \<Rightarrow>
   response \<times> command list" where
  "execute_route gi run c gadgetName bound =
     (case RequirePermission (rbacMiddleware gi) ''gadgets'' ''execute'' c of
        Some denied \<Rightarrow> (denied, [])
      | None \<Rightarrow> ExecuteGadget gi run c gadgetName bound)"

definition Recovery :: "response option \<times> command list \<Rightarrow> response \<times> command list" where
  "Recovery handled =
     (case handled of
        (None, started) \<Rightarrow> (\<lparr>status = 500, content = NoBody\<rparr>, started)
      | (Some written, started) \<Rightarrow> (written, started))"

definition sysinfo_route ::
  "GadgetIntegration \<Rightarrow> host_exec \<Rightarrow> gin_context \<Rightarrow> string + GadgetExecuteRequest \<Rightarrow>
   response \<times> command list" where
  "sysinfo_route gi run c bound =
     (case AdminOnly (rbacMiddleware gi) c of
        Some denied \<Rightarrow> (denied, [])
      | None \<Rightarrow> Recovery (ExecuteSystemGadget gi run c [] bound))"

text \<open>
  The router, for a request \<^verbatim>\<open>POST /gadgets/<segment>/execute\<close> with one path element
  as segment: Gin prefers the static path, so the segment \<^verbatim>\<open>sysinfo\<close>, in exactly this
  spelling, goes to \<^verbatim>\<open>/sysinfo/execute\<close>, and every other segment to \<^verbatim>\<open>/:name/execute\<close>
  as the parameter \<^verbatim>\<open>name\<close>.
\<close>

definition gadgets_execute ::
  "GadgetIntegration \<Rightarrow> host_exec \<Rightarrow> gin_context \<Rightarrow> string \<Rightarrow> string + GadgetExecuteRequest \<Rightarrow>
   response \<times> command list" where
  "gadgets_execute gi run c segment bound =
     (if segment = ''sysinfo'' then sysinfo_route gi run c bound
      else execute_route gi run c segment bound)"

section \<open>Default policies (package rbac)\<close>

record Permission =
  Subject_p :: string
  Object_p :: string
  Action_p :: string

definition DefaultPermissions :: "Permission list" where
  "DefaultPermissions =
     [\<lparr>Subject_p = ''role:admin'', Object_p = ''filesystem'', Action_p = ''read''\<rparr>,
      \<lparr>Subject_p = ''role:admin'', Object_p = ''filesystem'', Action_p = ''write''\<rparr>,
      \<lparr>Subject_p = ''role:admin'', Object_p = ''filesystem'', Action_p = ''execute''\<rparr>,
      \<lparr>Subject_p = ''role:admin'', Object_p = ''system'', Action_p = ''config''\<rparr>,
      \<lparr>Subject_p = ''role:admin'', Object_p = ''system'', Action_p = ''manage''\<rparr>,
      \<lparr>Subject_p = ''role:admin'', Object_p = ''ai'', Action_p = ''access''\<rparr>,
      \<lparr>Subject_p = ''role:admin'', Object_p = ''ai'', Action_p = ''models''\<rparr>,
      \<lparr>Subject_p = ''role:admin'', Object_p = ''users'', Action_p = ''manage''\<rparr>,
      \<lparr>Subject_p = ''role:admin'', Object_p = ''roles'', Action_p = ''manage''\<rparr>,
      \<lparr>Subject_p = ''role:admin'', Object_p = ''gadgets'', Action_p = ''execute''\<rparr>,
      \<lparr>Subject_p = ''role:admin'', Object_p = ''gadgets'', Action_p = ''manage''\<rparr>,
      \<lparr>Subject_p = ''role:user'', Object_p = ''filesystem'', Action_p = ''read''\<rparr>,
      \<lparr>Subject_p = ''role:user'', Object_p = ''ai'', Action_p = ''access''\<rparr>,
      \<lparr>Subject_p = ''role:user'', Object_p = ''gadgets'', Action_p = ''execute''\<rparr>,
      \<lparr>Subject_p = ''role:readonly'', Object_p = ''filesystem'', Action_p = ''read''\<rparr>,
      \<lparr>Subject_p = ''role:ai_user'', Object_p = ''filesystem'', Action_p = ''read''\<rparr>,
      \<lparr>Subject_p = ''role:ai_user'', Object_p = ''filesystem'', Action_p = ''write''\<rparr>,
      \<lparr>Subject_p = ''role:ai_user'', Object_p = ''ai'', Action_p = ''access''\<rparr>,
      \<lparr>Subject_p = ''role:ai_user'', Object_p = ''gadgets'', Action_p = ''execute''\<rparr>]"

text \<open>
  The storage adapter behind the enforcer can fail: \<^verbatim>\<open>add_err\<close> is the error, if any, of
  persisting one rule, \<^verbatim>\<open>save_err\<close> that of \<^verbatim>\<open>SavePolicy\<close>.
\<close>

record adapter =
  add_err :: "string list \<Rightarrow> string option"
  save_err :: "string option"

definition GetPolicy :: "enforcer \<Rightarrow> string list list" where
  "GetPolicy e = policy e"

text \<open>
  The library's \<^verbatim>\<open>AddPolicy\<close>: a rule already held is not added (\<^verbatim>\<open>false, nil\<close>); a new
  rule is persisted first, and held only if that succeeded.
\<close>

definition enforcer_AddPolicy ::
  "adapter \<Rightarrow> enforcer \<Rightarrow> string list \<Rightarrow> (string + bool) \<times> enforcer" where
  "enforcer_AddPolicy db e rule =
     (if rule \<in> set (policy e) then (Inr False, e)
      else case add_err db rule of
             Some err \<Rightarrow> (Inl err, e)
           | None \<Rightarrow> (Inr True, e\<lparr>policy := policy e @ [rule]\<rparr>))"

definition enforcer_SavePolicy :: "adapter \<Rightarrow> enforcer \<Rightarrow> string option" where
  "enforcer_SavePolicy db e = save_err db"

definition show_Permission :: "Permission \<Rightarrow> string" where
  "show_Permission perm = ''{'' @ Subject_p perm @ '' '' @ Object_p perm @ '' '' @ Action_p perm @ ''}''"

text \<open>The loop of \<^verbatim>\<open>initializeDefaults\<close> over \<^verbatim>\<open>DefaultPermissions\<close>, left at the first error.\<close>

fun add_defaults :: "adapter \<Rightarrow> enforcer \<Rightarrow> Permission list \<Rightarrow> string option \<times> enforcer" where
  "add_defaults db e [] = (None, e)"
| "add_defaults db e (perm # rest) =
     (case enforcer_AddPolicy db e [Subject_p perm, Object_p perm, Action_p perm] of
        (Inl err, e') \<Rightarrow>
          (Some (''failed to add default permission '' @ show_Permission perm @ '': '' @ err), e')
      | (Inr added, e') \<Rightarrow> add_defaults db e' rest)"

text \<open>\<^verbatim>\<open>initializeDefaults\<close>: the error returned, if any, and the enforcer afterwards.\<close>

definition initializeDefaults :: "adapter \<Rightarrow> enforcer \<Rightarrow> string option \<times> enforcer" where
  "initializeDefaults db cm =
     (let policies = GetPolicy cm
      in if length policies > 0 then (None, cm)
         else case add_defaults db cm DefaultPermissions of
                (Some err, cm') \<Rightarrow> (Some err, cm')
              | (None, cm') \<Rightarrow>
                  (case enforcer_SavePolicy db cm' of
                     Some err \<Rightarrow> (Some (''failed to save default policies: '' @ err), cm')
                   | None \<Rightarrow> (None, cm')))"

text \<open>The rule list the seed is expected to produce, and a store and callers used as examples.\<close>

definition default_rules :: "string list list" where
  "default_rules = map (\<lambda>perm. [Subject_p perm, Object_p perm, Action_p perm]) DefaultPermissions"

definition reliable :: adapter where
  "reliable = \<lparr>add_err = (\<lambda>rule. None), save_err = None\<rparr>"

definition seeded :: enforcer where
  "seeded = \<lparr>policy = default_rules, grouping = [[''admin'', ''role:admin'']]\<rparr>"

definition caller :: "string \<Rightarrow> string list \<Rightarrow> gin_context" where
  "caller name roles =
     \<lparr>user_claims = Some \<lparr>UserID = name, Username = name, Roles = roles, ExpiresAt = None,
        IssuedAt = None, NotBefore = None, Issuer = ''inspector-gadget-os'', Subject = name\<rparr>\<rparr>"

definition launcher :: GadgetIntegration where
  "launcher = \<lparr>gadgetBinaryPath = ''/opt/go-go-gadget'', rbacMiddleware = seeded\<rparr>"

definition quiet_host :: host_exec where
  "quiet_host = (\<lambda>cmd. (''ok'', None))"

definition empty_request :: GadgetExecuteRequest where
  "empty_request = \<lparr>req_GadgetName = ''hardware'', Args = [], Flags = []\<rparr>"

section \<open>JSON-RPC frames (package mcp)\<close>

subsection \<open>Strings through encoding/json\<close>

text \<open>
  \<^verbatim>\<open>rune_size s\<close> is the number of bytes of the UTF-8 encoding at the head of \<^verbatim>\<open>s\<close>, and
  0 when the head is not a valid encoding (\<^verbatim>\<open>utf8.DecodeRuneInString\<close> then returns
  \<^verbatim>\<open>RuneError\<close> with size 1).
\<close>

definition continuation :: "char \<Rightarrow> bool" where
  "continuation c = (0x80 \<le> (of_char c :: nat) \<and> (of_char c :: nat) \<le> 0xBF)"

definition second_ok :: "nat \<Rightarrow> char \<Rightarrow> bool" where
  "second_ok lead c =
     (let n = (of_char c :: nat)
      in if lead = 0xE0 then 0xA0 \<le> n \<and> n \<le> 0xBF
         else if lead = 0xED then 0x80 \<le> n \<and> n \<le> 0x9F
         else if lead = 0xF0 then 0x90 \<le> n \<and> n \<le> 0xBF
         else if lead = 0xF4 then 0x80 \<le> n \<and> n \<le> 0x8F
         else 0x80 \<le> n \<and> n \<le> 0xBF)"

fun rune_size :: "string \<Rightarrow> nat" where
  "rune_size [] = 0"
| "rune_size (x # rest) =
     (let lead = (of_char x :: nat)
      in if lead < 0x80 then 1
         else if 0xC2 \<le> lead \<and> lead \<le> 0xDF then
           (case rest of a # _ \<Rightarrow> if continuation a then 2 else 0 | _ \<Rightarrow> 0)
         else if 0xE0 \<le> lead \<and> lead \<le> 0xEF then
           (case rest of a # b # _ \<Rightarrow> if second_ok lead a \<and> continuation b then 3 else 0
            | _ \<Rightarrow> 0)
         else if 0xF0 \<le> lead \<and> lead \<le> 0xF4 then
           (case rest of a # b # c # _ \<Rightarrow>
              if second_ok lead a \<and> continuation b \<and> continuation c then 4 else 0
            | _ \<Rightarrow> 0)
         else 0)"

text \<open>
  A Go string written by \<^verbatim>\<open>json.Marshal\<close> and read back by \<^verbatim>\<open>json.Unmarshal\<close>: the
  escapes are undone by the decoder, and each byte that is not part of a valid encoding
  has been replaced by U+FFFD (bytes \<^verbatim>\<open>EF BF BD\<close>).
\<close>

fun json_string :: "string \<Rightarrow> string" where
  "json_string [] = []"
| "json_string (x # rest) =
     (let k = rune_size (x # rest)
      in if k = 0 then [CHR 0xEF, CHR 0xBF, CHR 0xBD] @ json_string rest
         else x # take (k - 1) rest @ json_string (drop (k - 1) rest))"

fun valid_utf8 :: "string \<Rightarrow> bool" where
  "valid_utf8 [] = True"
| "valid_utf8 (x # rest) =
     (let k = rune_size (x # rest) in k \<noteq> 0 \<and> valid_utf8 (drop (k - 1) rest))"

subsection \<open>Values of type interface\<close>

text \<open>
  A \<^verbatim>\<open>float64\<close> is its 64 bits: a sign, 11 bits of exponent and 52 bits of fraction.
  \<^verbatim>\<open>math.IsNaN\<close> and \<^verbatim>\<open>math.IsInf(f, 0)\<close> hold of the bit patterns whose exponent is
  all ones.
\<close>

type_synonym float64 = "64 word"

definition exponent_bits :: "float64 \<Rightarrow> nat" where
  "exponent_bits f = (unat f div 2 ^ 52) mod 2 ^ 11"

definition fraction_bits :: "float64 \<Rightarrow> nat" where
  "fraction_bits f = unat f mod 2 ^ 52"

definition sign_bit :: "float64 \<Rightarrow> bool" where
  "sign_bit f = (2 ^ 63 \<le> unat f)"

definition IsNaN :: "float64 \<Rightarrow> bool" where
  "IsNaN f = (exponent_bits f = 2047 \<and> fraction_bits f \<noteq> 0)"

definition IsInf :: "float64 \<Rightarrow> bool" where
  "IsInf f = (exponent_bits f = 2047 \<and> fraction_bits f = 0)"

text \<open>
  The values that \<^verbatim>\<open>json.Unmarshal\<close> stores in an \<^verbatim>\<open>interface{}\<close>: \<^verbatim>\<open>bool\<close>,
  \<^verbatim>\<open>float64\<close>, \<^verbatim>\<open>string\<close>, \<^verbatim>\<open>[]interface{}\<close> and \<^verbatim>\<open>map[string]interface{}\<close>, whose
  elements are such values or \<^verbatim>\<open>nil\<close> (\<^verbatim>\<open>GNil\<close>). A slice or a map may itself be \<^verbatim>\<open>nil\<close>
  (\<^verbatim>\<open>GNilSlice\<close>, \<^verbatim>\<open>GNilMap\<close>). A map is given by its entries, each key once; the
  decoder builds the entries in increasing order of the keys, the order in which the
  encoder writes them.
\<close>

datatype go_value =
  GNil | GBool bool | GFloat float64 | GString string
| GSlice "go_value list" | GNilSlice
| GMap "(string \<times> go_value) list" | GNilMap

text \<open>
  A field of type \<^verbatim>\<open>interface{}\<close> holds \<^verbatim>\<open>nil\<close> or a value with its Go type.
  \<^verbatim>\<open>Generic v\<close> is a value of one of the kinds above, in \<^typ>\<open>'j\<close> (\<^typ>\<open>go_value\<close>
  wherever a frame is encoded or decoded; a field that is \<^verbatim>\<open>nil\<close> is \<^verbatim>\<open>Nil\<close>, never
  \<^verbatim>\<open>Generic GNil\<close>). \<^verbatim>\<open>Uint64 n\<close> is a \<^verbatim>\<open>uint64\<close>, the type of the ids of
  \<^verbatim>\<open>MessageIDGenerator.Next\<close>; \<^verbatim>\<open>Typed x\<close> is a value of any other Go type (the request
  and response structs of the package). The \<^verbatim>\<open>int\<close> of \<^verbatim>\<open>RPCError.Code\<close> has 64 bits, as on
  the platforms the server is built for.
\<close>

datatype ('j, 't) dyn = Nil | Generic 'j | Uint64 nat | Typed 't

record ('j, 't) RPCError =
  Code :: "64 word"
  Message :: string
  Data :: "('j, 't) dyn"

record ('j, 't) Message =
  JSONRPC :: string
  ID :: "('j, 't) dyn"
  Method :: string
  Params :: "('j, 't) dyn"
  Result :: "('j, 't) dyn"
  Error_rpc :: "('j, 't) RPCError option"

record MCPError =
  Code_mcp :: int
  Message_mcp :: string

definition InvalidRequest :: int where
  "InvalidRequest = - 32600"

definition IsRequest :: "('j, 't) Message \<Rightarrow> bool" where
  "IsRequest m = (Method m \<noteq> [] \<and> ID m \<noteq> Nil)"

definition IsResponse :: "('j, 't) Message \<Rightarrow> bool" where
  "IsResponse m = (ID m \<noteq> Nil \<and> Method m = [] \<and> (Result m \<noteq> Nil \<or> Error_rpc m \<noteq> None))"

definition IsNotification :: "('j, 't) Message \<Rightarrow> bool" where
  "IsNotification m = (Method m \<noteq> [] \<and> ID m = Nil)"

text \<open>\<^verbatim>\<open>ValidateMessage\<close>: the error returned, \<^term>\<open>None\<close> for \<^verbatim>\<open>nil\<close>.\<close>

definition invalid_request :: "string \<Rightarrow> MCPError" where
  "invalid_request message = \<lparr>Code_mcp = InvalidRequest, Message_mcp = message\<rparr>"

definition ValidateMessage :: "('j, 't) Message \<Rightarrow> MCPError option" where
  "ValidateMessage msg =
     (if JSONRPC msg \<noteq> ''2.0'' then Some (invalid_request ''Invalid JSON-RPC version'')
      else
        (case (if IsRequest msg then
                 (if Method msg = [] then Some (invalid_request ''Request missing method'')
                  else if ID msg = Nil then Some (invalid_request ''Request missing ID'')
                  else None)
               else None) of
           Some err \<Rightarrow> Some err
         | None \<Rightarrow>
             (if IsResponse msg then
                (if ID msg = Nil then Some (invalid_request ''Response missing ID'')
                 else if Result msg = Nil \<and> Error_rpc msg = None
                 then Some (invalid_request ''Response missing result or error'')
                 else None)
              else None)))"

subsection \<open>encoding/json\<close>

text \<open>
  A JSON text whose syntax is valid, as a value: a number is kept as its literal, a
  string and a key are kept with their escapes undone; spacing is not part of it.
\<close>

datatype json =
  JNull | JBool bool | JNumber string | JString string
| JArray "json list" | JObject "(string \<times> json) list"

datatype json_error =
  UnsupportedValueError string | MarshalerError string | SyntaxError string
| UnmarshalTypeError string string

text \<open>
  The nesting depth of a JSON text: the largest number of arrays and objects open at
  once. The syntax check of the decoder refuses a text nested deeper than
  \<^verbatim>\<open>maxNestingDepth\<close>.
\<close>

definition highest :: "nat list \<Rightarrow> nat" where
  "highest ns = foldr max ns 0"

fun depth :: "json \<Rightarrow> nat" where
  "depth (JArray elems) = Suc (highest (map depth elems))"
| "depth (JObject members) = Suc (highest (map (\<lambda>(key, j). depth j) members))"
| "depth j = 0"

definition maxNestingDepth :: nat where
  "maxNestingDepth = 10000"

text \<open>
  What the encoder and the decoder take from elsewhere: the literal written for a
  \<^verbatim>\<open>float64\<close> that is neither NaN nor infinite (\<^verbatim>\<open>strconv.AppendFloat\<close> with precision
  \<^verbatim>\<open>-1\<close>, in the format the encoder chooses), the \<^verbatim>\<open>float64\<close> read from a literal
  (\<^verbatim>\<open>strconv.ParseFloat\<close>, \<^term>\<open>None\<close> when it reports an error), and for a value that is
  typed the error of \<^verbatim>\<open>json.Marshal\<close> or the JSON value written.
\<close>

record 't library =
  float_literal :: "float64 \<Rightarrow> string"
  ParseFloat :: "string \<Rightarrow> float64 option"
  typed_json :: "'t \<Rightarrow> json_error + json"

text \<open>
  \<^verbatim>\<open>strconv.ParseInt(s, 10, 64)\<close>: an optional sign and decimal digits, inside the range
  of \<^verbatim>\<open>int64\<close>. \<^verbatim>\<open>show_int64\<close> is \<^verbatim>\<open>strconv.AppendInt\<close> in base 10.
\<close>

definition is_digit :: "char \<Rightarrow> bool" where
  "is_digit c = (CHR ''0'' \<le> c \<and> c \<le> CHR ''9'')"

definition digits_value :: "string \<Rightarrow> nat" where
  "digits_value ds = foldl (\<lambda>n c. 10 * n + ((of_char c :: nat) - 48)) 0 ds"

definition ParseInt :: "string \<Rightarrow> int option" where
  "ParseInt s =
     (let neg = (s \<noteq> [] \<and> hd s = CHR ''-'');
          ds = (if s \<noteq> [] \<and> (hd s = CHR ''-'' \<or> hd s = CHR ''+'') then tl s else s)
      in if ds = [] \<or> \<not> list_all is_digit ds then None
         else (let n = (if neg then - int (digits_value ds) else int (digits_value ds))
               in if n < - (2 ^ 63) \<or> 2 ^ 63 \<le> n then None else Some n))"

definition show_int64 :: "64 word \<Rightarrow> string" where
  "show_int64 n = (if sint n < 0 then ''-'' @ decimal (nat (- sint n)) else decimal (nat (sint n)))"

text \<open>The first error of a sequence of results, or all the values.\<close>

fun collect :: "(json_error + 'a) list \<Rightarrow> json_error + 'a list" where
  "collect [] = Inr []"
| "collect (Inl err # rest) = Inl err"
| "collect (Inr x # rest) = (case collect rest of Inl err \<Rightarrow> Inl err | Inr xs \<Rightarrow> Inr (x # xs))"

definition keyed :: "string \<Rightarrow> json_error + 'a \<Rightarrow> json_error + string \<times> 'a" where
  "keyed key r = (case r of Inl err \<Rightarrow> Inl err | Inr x \<Rightarrow> Inr (json_string key, x))"

text \<open>
  The encoder on a generic value. A \<^verbatim>\<open>nil\<close> slice and a \<^verbatim>\<open>nil\<close> map are written as
  \<^verbatim>\<open>null\<close>; NaN and the infinities are refused; the entries of a map are written in
  increasing order of their keys; strings and keys are coerced to valid UTF-8.
\<close>

definition unsupported :: "float64 \<Rightarrow> string" where
  "unsupported f = (if IsNaN f then ''NaN'' else if sign_bit f then ''-Inf'' else ''+Inf'')"

fun encode_value :: "'t library \<Rightarrow> go_value \<Rightarrow> json_error + json" where
  "encode_value k GNil = Inr JNull"
| "encode_value k (GBool b) = Inr (JBool b)"
| "encode_value k (GFloat f) =
     (if IsInf f \<or> IsNaN f then Inl (UnsupportedValueError (unsupported f))
      else Inr (JNumber (float_literal k f)))"
| "encode_value k (GString s) = Inr (JString (json_string s))"
| "encode_value k GNilSlice = Inr JNull"
| "encode_value k (GSlice vs) =
     (case collect (map (encode_value k) vs) of
        Inl err \<Rightarrow> Inl err
      | Inr elems \<Rightarrow> Inr (JArray elems))"
| "encode_value k GNilMap = Inr JNull"
| "encode_value k (GMap entries) =
     (case collect (map (\<lambda>(key, v). keyed key (encode_value k v)) (sort_key fst entries)) of
        Inl err \<Rightarrow> Inl err
      | Inr members \<Rightarrow> Inr (JObject members))"

text \<open>
  The decoder into an \<^verbatim>\<open>interface{}\<close>. A number whose literal \<^verbatim>\<open>strconv.ParseFloat\<close>
  refuses is an error; an array becomes a slice that is not \<^verbatim>\<open>nil\<close>; in an object a key
  that comes again replaces the earlier entry (\<^verbatim>\<open>assign\<close> is \<^verbatim>\<open>m[key] = v\<close>).
\<close>

fun assign :: "string \<Rightarrow> 'v \<Rightarrow> (string \<times> 'v) list \<Rightarrow> (string \<times> 'v) list" where
  "assign key v [] = [(key, v)]"
| "assign key v ((key', v') # rest) =
     (if key = key' then (key, v) # rest
      else if key < key' then (key, v) # (key', v') # rest
      else (key', v') # assign key v rest)"

fun decode_value :: "'t library \<Rightarrow> json \<Rightarrow> json_error + go_value" where
  "decode_value k JNull = Inr GNil"
| "decode_value k (JBool b) = Inr (GBool b)"
| "decode_value k (JNumber literal) =
     (case ParseFloat k literal of
        None \<Rightarrow> Inl (UnmarshalTypeError (''number '' @ literal) ''float64'')
      | Some f \<Rightarrow> Inr (GFloat f))"
| "decode_value k (JString s) = Inr (GString (json_string s))"
| "decode_value k (JArray elems) =
     (case collect (map (decode_value k) elems) of
        Inl err \<Rightarrow> Inl err
      | Inr vs \<Rightarrow> Inr (GSlice vs))"
| "decode_value k (JObject members) =
     (case collect (map (\<lambda>(key, j). keyed key (decode_value k j)) members) of
        Inl err \<Rightarrow> Inl err
      | Inr entries \<Rightarrow> Inr (GMap (foldl (\<lambda>m (key, v). assign key v m) [] entries)))"

text \<open>
  A field of type \<^verbatim>\<open>interface{}\<close>: with \<^verbatim>\<open>omitempty\<close> it is left out when \<^verbatim>\<open>nil\<close>
  (\<^term>\<open>None\<close>), and written otherwise, a \<^verbatim>\<open>uint64\<close> in decimal. Read back, \<^verbatim>\<open>null\<close>
  makes the field \<^verbatim>\<open>nil\<close> and any other value is decoded as a generic value.
\<close>

fun marshal_dyn :: "'t library \<Rightarrow> (go_value, 't) dyn \<Rightarrow> json_error + json option" where
  "marshal_dyn k Nil = Inr None"
| "marshal_dyn k (Generic v) = map_sum id Some (encode_value k v)"
| "marshal_dyn k (Uint64 n) = Inr (Some (JNumber (decimal n)))"
| "marshal_dyn k (Typed x) = map_sum id Some (typed_json k x)"

definition unmarshal_dyn :: "'t library \<Rightarrow> json \<Rightarrow> json_error + (go_value, 't) dyn" where
  "unmarshal_dyn k j = (if j = JNull then Inr Nil else map_sum id Generic (decode_value k j))"

subsection \<open>MarshalMessage and UnmarshalMessage\<close>

text \<open>
  \<^verbatim>\<open>json.Marshal\<close> of a \<^verbatim>\<open>Message\<close>: the members in the order of the fields, under the
  names of the struct tags; a member tagged \<^verbatim>\<open>omitempty\<close> is left out when its field is
  empty.
\<close>

definition member :: "string \<Rightarrow> json option \<Rightarrow> (string \<times> json) list" where
  "member name written = (case written of None \<Rightarrow> [] | Some j \<Rightarrow> [(name, j)])"

definition marshal_error ::
  "'t library \<Rightarrow> (go_value, 't) RPCError option \<Rightarrow> json_error + json option" where
  "marshal_error k e =
     (case e of
        None \<Rightarrow> Inr None
      | Some err \<Rightarrow>
          (case marshal_dyn k (Data err) of
             Inl problem \<Rightarrow> Inl problem
           | Inr d \<Rightarrow>
               Inr (Some (JObject ([(''code'', JNumber (show_int64 (Code err))),
                                     (''message'', JString (json_string (Message err)))] @
                                    member ''data'' d)))))"

text \<open>
  The bytes exchanged: a JSON text, or bytes that are not one (with the error of the
  syntax check). \<^verbatim>\<open>json.Marshal\<close> writes a text however deep the value is nested.
\<close>

datatype wire = Document json | Garbage string

definition MarshalMessage :: "'t library \<Rightarrow> (go_value, 't) Message \<Rightarrow> json_error + wire" where
  "MarshalMessage k msg =
     (case marshal_dyn k (ID msg) of
        Inl problem \<Rightarrow> Inl problem
      | Inr i \<Rightarrow>
     (case marshal_dyn k (Params msg) of
        Inl problem \<Rightarrow> Inl problem
      | Inr p \<Rightarrow>
     (case marshal_dyn k (Result msg) of
        Inl problem \<Rightarrow> Inl problem
      | Inr r \<Rightarrow>
     (case marshal_error k (Error_rpc msg) of
        Inl problem \<Rightarrow> Inl problem
      | Inr e \<Rightarrow>
          Inr (Document (JObject
            ([(''jsonrpc'', JString (json_string (JSONRPC msg)))] @
             member ''id'' i @
             member ''method'' (if Method msg = [] then None
                                else Some (JString (json_string (Method msg)))) @
             member ''params'' p @
             member ''result'' r @
             member ''error'' e)))))))"

text \<open>
  \<^verbatim>\<open>json.Unmarshal\<close> into a struct: the members are read in order, each into the field
  whose name equals its key, case ignored; other members are skipped. \<^verbatim>\<open>null\<close> leaves a
  string or an integer as it is and makes a pointer or an interface \<^verbatim>\<open>nil\<close>. A member
  of the wrong kind, or a number that does not fit, is an error, and the first error is
  the one returned.
\<close>

definition field_is :: "string \<Rightarrow> string \<Rightarrow> bool" where
  "field_is key name = (EqualFold (json_string key) name = Some True)"

fun kind :: "json \<Rightarrow> string" where
  "kind JNull = ''null''"
| "kind (JBool b) = ''bool''"
| "kind (JNumber literal) = ''number''"
| "kind (JString s) = ''string''"
| "kind (JArray elems) = ''array''"
| "kind (JObject members) = ''object''"

fun fold_members ::
  "('a \<Rightarrow> string \<times> json \<Rightarrow> json_error + 'a) \<Rightarrow> 'a \<Rightarrow> (string \<times> json) list \<Rightarrow> json_error + 'a" where
  "fold_members f target [] = Inr target"
| "fold_members f target (m # rest) =
     (case f target m of
        Inl err \<Rightarrow> Inl err
      | Inr target' \<Rightarrow> fold_members f target' rest)"

definition read_string :: "json \<Rightarrow> string \<Rightarrow> json_error + string" where
  "read_string j current =
     (case j of
        JNull \<Rightarrow> Inr current
      | JString s \<Rightarrow> Inr (json_string s)
      | _ \<Rightarrow> Inl (UnmarshalTypeError (kind j) ''string''))"

definition read_int :: "json \<Rightarrow> 64 word \<Rightarrow> json_error + 64 word" where
  "read_int j current =
     (case j of
        JNull \<Rightarrow> Inr current
      | JNumber literal \<Rightarrow>
          (case ParseInt literal of
             None \<Rightarrow> Inl (UnmarshalTypeError (''number '' @ literal) ''int'')
           | Some n \<Rightarrow> Inr (word_of_int n))
      | _ \<Rightarrow> Inl (UnmarshalTypeError (kind j) ''int''))"

definition set_error_member ::
  "'t library \<Rightarrow> (go_value, 't) RPCError \<Rightarrow> string \<times> json \<Rightarrow> json_error + (go_value, 't) RPCError" where
  "set_error_member k err m =
     (case m of (key, j) \<Rightarrow>
        if field_is key ''code'' then
          (case read_int j (Code err) of Inl problem \<Rightarrow> Inl problem
           | Inr n \<Rightarrow> Inr (err\<lparr>Code := n\<rparr>))
        else if field_is key ''message'' then
          (case read_string j (Message err) of Inl problem \<Rightarrow> Inl problem
           | Inr s \<Rightarrow> Inr (err\<lparr>Message := s\<rparr>))
        else if field_is key ''data'' then
          (case unmarshal_dyn k j of Inl problem \<Rightarrow> Inl problem
           | Inr d \<Rightarrow> Inr (err\<lparr>Data := d\<rparr>))
        else Inr err)"

definition unmarshal_error ::
  "'t library \<Rightarrow> json \<Rightarrow> (go_value, 't) RPCError option \<Rightarrow>
   json_error + (go_value, 't) RPCError option" where
  "unmarshal_error k j current =
     (case j of
        JNull \<Rightarrow> Inr None
      | JObject members \<Rightarrow>
          map_sum id Some
            (fold_members (set_error_member k)
               (case current of None \<Rightarrow> \<lparr>Code = 0, Message = [], Data = Nil\<rparr> | Some err \<Rightarrow> err)
               members)
      | _ \<Rightarrow> Inl (UnmarshalTypeError (kind j) ''mcp.RPCError''))"

definition set_member ::
  "'t library \<Rightarrow> (go_value, 't) Message \<Rightarrow> string \<times> json \<Rightarrow> json_error + (go_value, 't) Message" where
  "set_member k msg m =
     (case m of (key, j) \<Rightarrow>
        if field_is key ''jsonrpc'' then
          (case read_string j (JSONRPC msg) of Inl problem \<Rightarrow> Inl problem
           | Inr s \<Rightarrow> Inr (msg\<lparr>JSONRPC := s\<rparr>))
        else if field_is key ''id'' then
          (case unmarshal_dyn k j of Inl problem \<Rightarrow> Inl problem
           | Inr v \<Rightarrow> Inr (msg\<lparr>ID := v\<rparr>))
        else if field_is key ''method'' then
          (case read_string j (Method msg) of Inl problem \<Rightarrow> Inl problem
           | Inr s \<Rightarrow> Inr (msg\<lparr>Method := s\<rparr>))
        else if field_is key ''params'' then
          (case unmarshal_dyn k j of Inl problem \<Rightarrow> Inl problem
           | Inr v \<Rightarrow> Inr (msg\<lparr>Params := v\<rparr>))
        else if field_is key ''result'' then
          (case unmarshal_dyn k j of Inl problem \<Rightarrow> Inl problem
           | Inr v \<Rightarrow> Inr (msg\<lparr>Result := v\<rparr>))
        else if field_is key ''error'' then
          (case unmarshal_error k j (Error_rpc msg) of Inl problem \<Rightarrow> Inl problem
           | Inr e \<Rightarrow> Inr (msg\<lparr>Error_rpc := e\<rparr>))
        else Inr msg)"

definition zero_Message :: "(go_value, 't) Message" where
  "zero_Message =
     \<lparr>JSONRPC = [], ID = Nil, Method = [], Params = Nil, Result = Nil, Error_rpc = None\<rparr>"

definition UnmarshalMessage :: "'t library \<Rightarrow> wire \<Rightarrow> json_error + (go_value, 't) Message" where
  "UnmarshalMessage k data =
     (case data of
        Garbage problem \<Rightarrow> Inl (SyntaxError problem)
      | Document j \<Rightarrow>
          if depth j > maxNestingDepth then Inl (SyntaxError ''exceeded max depth'')
          else
            (case j of
               JNull \<Rightarrow> Inr zero_Message
             | JObject members \<Rightarrow> fold_members (set_member k) zero_Message members
             | _ \<Rightarrow> Inl (UnmarshalTypeError (kind j) ''mcp.Message'')))"

text \<open>\<^verbatim>\<open>CreateRequest\<close> and \<^verbatim>\<open>CreateResponse\<close>.\<close>

definition CreateRequest :: "('j, 't) dyn \<Rightarrow> string \<Rightarrow> ('j, 't) dyn \<Rightarrow> ('j, 't) Message" where
  "CreateRequest ident method params =
     \<lparr>JSONRPC = ''2.0'', ID = ident, Method = method, Params = params, Result = Nil,
      Error_rpc = None\<rparr>"

definition CreateResponse :: "('j, 't) dyn \<Rightarrow> ('j, 't) dyn \<Rightarrow> ('j, 't) Message" where
  "CreateResponse ident result =
     \<lparr>JSONRPC = ''2.0'', ID = ident, Method = [], Params = Nil, Result = result, Error_rpc = None\<rparr>"

text \<open>
  The values that come back as they were. A float is neither NaN nor infinite, and the
  literal written for it is read back as the same float (which \<^verbatim>\<open>strconv\<close> promises of
  every such float); a string and a key are valid UTF-8; a slice and a map are not
  \<^verbatim>\<open>nil\<close>; the entries of a map are in increasing order of their keys. \<^verbatim>\<open>nesting\<close> is
  the number of slices and maps inside one another.
\<close>

fun generic_value :: "'t library \<Rightarrow> go_value \<Rightarrow> bool" where
  "generic_value k GNil = True"
| "generic_value k (GBool b) = True"
| "generic_value k (GFloat f) =
     (\<not> IsNaN f \<and> \<not> IsInf f \<and> ParseFloat k (float_literal k f) = Some f)"
| "generic_value k (GString s) = valid_utf8 s"
| "generic_value k GNilSlice = False"
| "generic_value k (GSlice vs) = list_all (generic_value k) vs"
| "generic_value k GNilMap = False"
| "generic_value k (GMap entries) =
     (sorted_wrt (<) (map fst entries) \<and>
      list_all (\<lambda>(key, v). valid_utf8 key \<and> generic_value k v) entries)"

fun nesting :: "go_value \<Rightarrow> nat" where
  "nesting (GSlice vs) = Suc (highest (map nesting vs))"
| "nesting (GMap entries) = Suc (highest (map (\<lambda>(key, v). nesting v) entries))"
| "nesting v = 0"

text \<open>
  A frame is generic when its fields of type \<^verbatim>\<open>interface{}\<close> hold \<^verbatim>\<open>nil\<close> or such
  values, its strings are valid UTF-8, and its encoding is nested no deeper than
  \<^verbatim>\<open>maxNestingDepth\<close>: the frame is an object, and so is its error, around the values.
\<close>

definition generic_dyn :: "'t library \<Rightarrow> nat \<Rightarrow> (go_value, 't) dyn \<Rightarrow> bool" where
  "generic_dyn k room v =
     (case v of
        Nil \<Rightarrow> True
      | Generic x \<Rightarrow> x \<noteq> GNil \<and> generic_value k x \<and> nesting x \<le> room
      | _ \<Rightarrow> False)"

definition generic_frame :: "'t library \<Rightarrow> (go_value, 't) Message \<Rightarrow> bool" where
  "generic_frame k m =
     (generic_dyn k (maxNestingDepth - 1) (ID m) \<and>
      generic_dyn k (maxNestingDepth - 1) (Params m) \<and>
      generic_dyn k (maxNestingDepth - 1) (Result m) \<and>
      valid_utf8 (JSONRPC m) \<and> valid_utf8 (Method m) \<and>
      (case Error_rpc m of
         None \<Rightarrow> True
       | Some err \<Rightarrow> generic_dyn k (maxNestingDepth - 2) (Data err) \<and> valid_utf8 (Message err)))"

text \<open>
  Examples. The library at the three numbers the examples use: 1, 42 and 0.5 with
  their bits and their literals; and frames.
\<close>

definition sample_library :: "unit library" where
  "sample_library =
     \<lparr>float_literal = (\<lambda>f. if f = 0x3FF0000000000000 then ''1''
                            else if f = 0x4045000000000000 then ''42''
                            else if f = 0x3FE0000000000000 then ''0.5''
                            else ''0''),
      ParseFloat = (\<lambda>literal. if literal = ''1'' then Some 0x3FF0000000000000
                               else if literal = ''42'' then Some 0x4045000000000000
                               else if literal = ''0.5'' then Some 0x3FE0000000000000
                               else if literal = ''0'' then Some 0
                               else None),
      typed_json = (\<lambda>x. Inr (JObject []))\<rparr>"

definition both_set :: "(string, unit) Message" where
  "both_set =
     \<lparr>JSONRPC = ''2.0'', ID = Generic ''7'', Method = [], Params = Nil, Result = Generic ''true'',
      Error_rpc = Some \<lparr>Code = - 32603, Message = ''Internal error'', Data = Nil\<rparr>\<rparr>"

definition tools_reply :: "(go_value, unit) Message" where
  "tools_reply =
     \<lparr>JSONRPC = ''2.0'', ID = Generic (GFloat 0x4045000000000000), Method = [], Params = Nil,
      Result = Generic (GMap [(''count'', GFloat 0x3FF0000000000000),
                              (''tools'', GSlice [GString ''echo'', GNil, GBool True])]),
      Error_rpc = Some \<lparr>Code = - 32603, Message = ''Internal error'',
                         Data = Generic (GFloat 0x3FE0000000000000)\<rparr>\<rparr>"

section \<open>Identity tokens (package auth)\<close>

text \<open>
  Times are instants in nanoseconds since the epoch (\<^verbatim>\<open>time.Time\<close>), durations are
  nanoseconds (\<^verbatim>\<open>time.Duration\<close>); the instants and durations of the claims are far from
  the ends of the 64-bit range, and \<^typ>\<open>int\<close> is used for both.
  \<^verbatim>\<open>jwt.NewNumericDate\<close> truncates an instant to the second.
\<close>

definition second :: int where
  "second = 1000000000"

definition hour :: int where
  "hour = 3600 * second"

definition NewNumericDate :: "int \<Rightarrow> int" where
  "NewNumericDate t = t div second"

definition instant :: "int \<Rightarrow> int" where
  "instant numeric_date = numeric_date * second"

record JWTConfig =
  cfg_SecretKey :: string
  cfg_TokenExpiry :: int
  cfg_Issuer :: string
  cfg_AllowedRoles :: "string list"

record JWTManager =
  secretKey :: string
  tokenExpiry :: int
  issuer :: string
  allowedRoles :: "string list"

definition NewJWTManager :: "JWTConfig \<Rightarrow> JWTManager" where
  "NewJWTManager config =
     \<lparr>secretKey = cfg_SecretKey config,
      tokenExpiry = (if cfg_TokenExpiry config = 0 then 24 * hour else cfg_TokenExpiry config),
      issuer = (if cfg_Issuer config = [] then ''inspector-gadget-os'' else cfg_Issuer config),
      allowedRoles = cfg_AllowedRoles config\<rparr>"

datatype auth_error = ErrInvalidToken string | ErrTokenExpired | ErrMissingToken | ErrInsufficientRole

subsection \<open>The token library\<close>

text \<open>
  A token string is three segments: a header naming the algorithm, the claims and a
  signature; anything else is malformed. The MAC of the library is a parameter: the tag
  of an algorithm, a key and the signed part (header and claims).
\<close>

datatype 'sig token_string = Malformed string | Compact "string option" Claims 'sig

type_synonym 'sig mac = "string \<Rightarrow> string \<Rightarrow> string option \<times> Claims \<Rightarrow> 'sig"

datatype claim_error = TokenExpired | TokenNotValidYet

datatype jwt_error =
  TokenMalformed | TokenUnverifiable string | TokenSignatureInvalid | TokenInvalidClaims "claim_error list"

definition registered_methods :: "string list" where
  "registered_methods =
     [''HS256'', ''HS384'', ''HS512'', ''RS256'', ''RS384'', ''RS512'', ''PS256'', ''PS384'', ''PS512'',
      ''ES256'', ''ES384'', ''ES512'', ''EdDSA'', ''none'']"

definition hmac_methods :: "string list" where
  "hmac_methods = [''HS256'', ''HS384'', ''HS512'']"

text \<open>
  The claims as \<^verbatim>\<open>json.Marshal\<close> writes them into the token and \<^verbatim>\<open>json.Unmarshal\<close> reads
  them back.
\<close>

definition json_claims :: "Claims \<Rightarrow> Claims" where
  "json_claims c =
     c\<lparr>UserID := json_string (UserID c), Username := json_string (Username c),
       Roles := map json_string (Roles c), Issuer := json_string (Issuer c),
       Subject := json_string (Subject c)\<rparr>"

text \<open>
  The validator of the library with no option set: the expiry and the not-before date
  are checked when present, and every failure is collected. The issuer is compared only
  when an expected issuer is given as an option.
\<close>

definition validate_claims :: "int \<Rightarrow> Claims \<Rightarrow> claim_error list" where
  "validate_claims now c =
     (case ExpiresAt c of
        None \<Rightarrow> []
      | Some exp \<Rightarrow> if now < instant exp then [] else [TokenExpired]) @
     (case NotBefore c of
        None \<Rightarrow> []
      | Some nbf \<Rightarrow> if \<not> now < instant nbf then [] else [TokenNotValidYet])"

text \<open>The key function that \<^verbatim>\<open>ValidateToken\<close> passes to the library.\<close>

definition keyFunc :: "JWTManager \<Rightarrow> string \<Rightarrow> string + string" where
  "keyFunc j alg =
     (if alg \<notin> set hmac_methods then Inl (''unexpected signing method: '' @ alg)
      else Inr (secretKey j))"

definition ParseWithClaims ::
  "'sig mac \<Rightarrow> int \<Rightarrow> 'sig token_string \<Rightarrow> (string \<Rightarrow> string + string) \<Rightarrow> jwt_error + Claims" where
  "ParseWithClaims mac now tokenString key_of =
     (case tokenString of
        Malformed problem \<Rightarrow> Inl TokenMalformed
      | Compact header claims signature \<Rightarrow>
          (case header of
             None \<Rightarrow> Inl (TokenUnverifiable ''signing method (alg) is unspecified'')
           | Some alg \<Rightarrow>
               if alg \<notin> set registered_methods
               then Inl (TokenUnverifiable ''signing method (alg) is unavailable'')
               else case key_of alg of
                      Inl problem \<Rightarrow> Inl (TokenUnverifiable problem)
                    | Inr key \<Rightarrow>
                        if signature \<noteq> mac alg key (header, claims)
                        then Inl TokenSignatureInvalid
                        else let problems = validate_claims now claims
                             in if problems = [] then Inr claims
                                else Inl (TokenInvalidClaims problems)))"

fun is_expired :: "jwt_error \<Rightarrow> bool" where
  "is_expired (TokenInvalidClaims problems) = (TokenExpired \<in> set problems)"
| "is_expired other = False"

fun jwt_error_text :: "jwt_error \<Rightarrow> string" where
  "jwt_error_text TokenMalformed = ''token is malformed''"
| "jwt_error_text (TokenUnverifiable problem) = ''token is unverifiable: '' @ problem"
| "jwt_error_text TokenSignatureInvalid = ''token signature is invalid''"
| "jwt_error_text (TokenInvalidClaims problems) = ''token has invalid claims''"

subsection \<open>GenerateToken and ValidateToken\<close>

text \<open>Both read the clock; the instant read is an argument.\<close>

definition GenerateToken ::
  "'sig mac \<Rightarrow> JWTManager \<Rightarrow> int \<Rightarrow> string \<Rightarrow> string \<Rightarrow> string list \<Rightarrow>
   auth_error + 'sig token_string" where
  "GenerateToken mac j now userID username roles =
     (let claims = \<lparr>UserID = userID, Username = username, Roles = roles,
                     ExpiresAt = Some (NewNumericDate (now + tokenExpiry j)),
                     IssuedAt = Some (NewNumericDate now),
                     NotBefore = Some (NewNumericDate now),
                     Issuer = issuer j, Subject = userID\<rparr>;
          header = Some ''HS256'';
          written = json_claims claims
      in Inr (Compact header written (mac ''HS256'' (secretKey j) (header, written))))"

definition ValidateToken ::
  "'sig mac \<Rightarrow> JWTManager \<Rightarrow> int \<Rightarrow> 'sig token_string \<Rightarrow> auth_error + Claims" where
  "ValidateToken mac j now tokenString =
     (case ParseWithClaims mac now tokenString (keyFunc j) of
        Inl err \<Rightarrow>
          if is_expired err then Inl ErrTokenExpired
          else Inl (ErrInvalidToken (jwt_error_text err))
      | Inr claims \<Rightarrow> Inr claims)"

text \<open>Examples: a MAC whose tag spells out what was signed, and the manager of the server.\<close>

definition plain_mac :: "(string \<times> string \<times> string option \<times> Claims) mac" where
  "plain_mac alg key payload = (alg, key, payload)"

definition server_manager :: JWTManager where
  "server_manager =
     NewJWTManager \<lparr>cfg_SecretKey = ''inspector-gadget-secret-key-change-in-production'',
       cfg_TokenExpiry = 24 * hour, cfg_Issuer = ''inspector-gadget-os'',
       cfg_AllowedRoles = [''admin'', ''user'', ''readonly'', ''ai_user'']\<rparr>"

definition other_service :: JWTManager where
  "other_service = server_manager\<lparr>issuer := ''another-service''\<rparr>"

definition forged_claims :: Claims where
  "forged_claims =
     \<lparr>UserID = ''mallory'', Username = ''Mallory'', Roles = [''admin''],
      ExpiresAt = Some 1700086400, IssuedAt = Some 1700000000, NotBefore = Some 1700000000,
      Issuer = ''another-service'', Subject = ''mallory''\<rparr>"

definition forged :: "(string \<times> string \<times> string option \<times> Claims) token_string" where
  "forged =
     Compact (Some ''HS256'') forged_claims
       (''HS256'', ''inspector-gadget-secret-key-change-in-production'', Some ''HS256'', forged_claims)"

text \<open>
  Examples: the token minted for a subject that is the single byte \<^verbatim>\<open>FF\<close>, and the manager
  of \<^verbatim>\<open>TestJWTManager_ExpiredToken\<close> with the token it mints.
\<close>

definition replaced_claims :: Claims where
  "replaced_claims =
     \<lparr>UserID = [CHR 0xEF, CHR 0xBF, CHR 0xBD], Username = ''User One'', Roles = [''user''],
      ExpiresAt = Some 1700086400, IssuedAt = Some 1700000000, NotBefore = Some 1700000000,
      Issuer = ''inspector-gadget-os'', Subject = [CHR 0xEF, CHR 0xBF, CHR 0xBD]\<rparr>"

definition replaced :: "(string \<times> string \<times> string option \<times> Claims) token_string" where
  "replaced =
     Compact (Some ''HS256'') replaced_claims
       (''HS256'', ''inspector-gadget-secret-key-change-in-production'', Some ''HS256'',
        replaced_claims)"

definition test_manager :: JWTManager where
  "test_manager =
     NewJWTManager \<lparr>cfg_SecretKey = ''test-secret-key-12345'', cfg_TokenExpiry = - hour,
       cfg_Issuer = [], cfg_AllowedRoles = []\<rparr>"

definition lapsed_claims :: Claims where
  "lapsed_claims =
     \<lparr>UserID = ''user123'', Username = ''testuser'', Roles = [''user''],
      ExpiresAt = Some 1699996400, IssuedAt = Some 1700000000, NotBefore = Some 1700000000,
      Issuer = ''inspector-gadget-os'', Subject = ''user123''\<rparr>"

definition lapsed :: "(string \<times> string \<times> string option \<times> Claims) token_string" where
  "lapsed =
     Compact (Some ''HS256'') lapsed_claims
       (''HS256'', ''test-secret-key-12345'', Some ''HS256'', lapsed_claims)"

section \<open>Sandboxed file system (package safefs)\<close>

subsection \<open>path/filepath on a Unix host\<close>

text \<open>
  The functions of the Go library that \<^verbatim>\<open>ValidatePath\<close> and \<^verbatim>\<open>WriteFile\<close> call, for
  the separator \<^verbatim>\<open>/\<close> and no volume names.
\<close>

definition IsPathSeparator :: "char \<Rightarrow> bool" where
  "IsPathSeparator c = (c = CHR ''/'')"

text \<open>The elements of a path: what stands between its separators, empty elements included.\<close>

fun split_path :: "string \<Rightarrow> string \<Rightarrow> string list" where
  "split_path [] current = [rev current]"
| "split_path (c # rest) current =
     (if IsPathSeparator c then rev current # split_path rest []
      else split_path rest (c # current))"

definition elements :: "string \<Rightarrow> string list" where
  "elements path = split_path path []"

text \<open>
  \<^verbatim>\<open>Clean\<close> reads the path element by element and writes into a buffer; \<^verbatim>\<open>dotdot\<close> is
  the index in the buffer below which a \<^verbatim>\<open>..\<close> element may not remove anything.
  \<^verbatim>\<open>backtrack\<close> is the inner loop that finds where the last element of the buffer
  starts; \<^verbatim>\<open>clean_step\<close> is one turn of the main loop, on an empty element, a \<^verbatim>\<open>.\<close>
  element, a \<^verbatim>\<open>..\<close> element or a real one.
\<close>

fun backtrack :: "string \<Rightarrow> nat \<Rightarrow> nat \<Rightarrow> nat" where
  "backtrack out dotdot w =
     (if w > dotdot \<and> \<not> IsPathSeparator (out ! w) then backtrack out dotdot (w - 1) else w)"

declare backtrack.simps [simp del]

definition clean_step :: "bool \<Rightarrow> string \<times> nat \<Rightarrow> string \<Rightarrow> string \<times> nat" where
  "clean_step rooted buffer e =
     (case buffer of
        (out, dotdot) \<Rightarrow>
          if e = [] then (out, dotdot)
          else if e = ''.'' then (out, dotdot)
          else if e = ''..'' then
            (if length out > dotdot then
               (take (backtrack out dotdot (length out - 1)) out, dotdot)
             else if \<not> rooted then
               (let out' = (if length out > 0 then out @ ''/'' else out) @ ''..''
                in (out', length out'))
             else (out, dotdot))
          else
            ((if (rooted \<and> length out \<noteq> 1) \<or> (\<not> rooted \<and> length out \<noteq> 0)
              then out @ ''/'' else out) @ e,
             dotdot))"

definition Clean :: "string \<Rightarrow> string" where
  "Clean path =
     (if path = [] then ''.''
      else let rooted = IsPathSeparator (hd path);
               out = fst (if rooted then foldl (clean_step rooted) (''/'', 1) (elements (tl path))
                          else foldl (clean_step rooted) ([], 0) (elements path))
           in if out = [] then ''.'' else out)"

definition IsAbs :: "string \<Rightarrow> bool" where
  "IsAbs path = HasPrefix path ''/''"

text \<open>\<^verbatim>\<open>Join\<close> of two elements.\<close>

definition Join2 :: "string \<Rightarrow> string \<Rightarrow> string" where
  "Join2 a b =
     (if a \<noteq> [] then Clean (a @ ''/'' @ b)
      else if b \<noteq> [] then Clean b
      else [])"

text \<open>
  What the program asks of its host besides the file system: the working directory
  (\<^verbatim>\<open>os.Getwd\<close>, which can fail), and the lower-casing of a string that is not ASCII, which
  follows the Unicode tables of the runtime.
\<close>

record runtime =
  getwd :: "string + string"
  unicode_lower :: "string \<Rightarrow> string"

definition Abs :: "runtime \<Rightarrow> string \<Rightarrow> string + string" where
  "Abs rt path =
     (if IsAbs path then Inr (Clean path)
      else case getwd rt of
             Inl err \<Rightarrow> Inl err
           | Inr wd \<Rightarrow> Inr (Join2 wd path))"

text \<open>
  The loop of \<^verbatim>\<open>Rel\<close> that walks both paths element by element: it is given the parts
  not yet compared, and returns the element of the base at which it stopped (empty when
  it ran to the end of a path) and the parts left over.
\<close>

definition element :: "string \<Rightarrow> string" where
  "element s = takeWhile (\<lambda>x. \<not> IsPathSeparator x) s"

definition after_element :: "string \<Rightarrow> string" where
  "after_element s = dropWhile (\<lambda>x. \<not> IsPathSeparator x) s"

definition skip_separator :: "string \<Rightarrow> string" where
  "skip_separator s = (if s \<noteq> [] then tl s else s)"

function rel_loop :: "string \<Rightarrow> string \<Rightarrow> string \<times> string \<times> string" where
  "rel_loop base targ =
     (if base \<noteq> [] \<and> targ \<noteq> [] then
        (if element targ \<noteq> element base then (element base, base, targ)
         else rel_loop (skip_separator (after_element base)) (skip_separator (after_element targ)))
      else ([], base, targ))"
  by pat_completeness auto
termination
proof (relation "measure (\<lambda>(base, targ). length base)")
  show "wf (measure (\<lambda>(base, targ). length base))" by simp
next
  fix base targ :: string
  assume "base \<noteq> [] \<and> targ \<noteq> []"
  then obtain c rest where base: "base = c # rest" by (cases base) auto
  have "length (skip_separator (after_element base)) < length base"
  proof (cases "IsPathSeparator c")
    case True
    then show ?thesis by (simp add: base skip_separator_def after_element_def)
  next
    case False
    have "length (after_element rest) \<le> length rest"
      by (simp add: after_element_def length_dropWhile_le)
    then have "length (skip_separator (after_element rest)) \<le> length rest"
      unfolding skip_separator_def by (cases "after_element rest") auto
    moreover have "after_element base = after_element rest"
      using False by (simp add: base after_element_def)
    ultimately show ?thesis by (simp add: base)
  qed
  then show "((skip_separator (after_element base), skip_separator (after_element targ)), base, targ)
             \<in> measure (\<lambda>(base, targ). length base)"
    by simp
qed

declare rel_loop.simps [simp del]

definition Rel :: "string \<Rightarrow> string \<Rightarrow> string + string" where
  "Rel basepath targpath =
     (let base = Clean basepath; targ = Clean targpath
      in if targ = base then Inr ''.''
         else
           (let base = (if base = ''.'' then [] else base);
                baseSlashed = (length base > 0 \<and> IsPathSeparator (hd base));
                targSlashed = (length targ > 0 \<and> IsPathSeparator (hd targ))
            in if baseSlashed \<noteq> targSlashed then
                 Inl (''Rel: can't make '' @ targpath @ '' relative to '' @ basepath)
               else
                 (case rel_loop base targ of
                    (stopped_at, base_left, targ_left) \<Rightarrow>
                      if stopped_at = ''..'' then
                        Inl (''Rel: can't make '' @ targpath @ '' relative to '' @ basepath)
                      else if base_left \<noteq> [] then
                        (let seps = length (filter IsPathSeparator base_left)
                         in Inr (''..'' @ concat (replicate seps ''/..'') @
                                 (if targ_left \<noteq> [] then ''/'' @ targ_left else [])))
                      else Inr targ_left)))"

text \<open>\<^verbatim>\<open>Ext\<close> scans the path from its end, \<^verbatim>\<open>Dir\<close> cleans what precedes the last element.\<close>

fun ext_scan :: "string \<Rightarrow> string \<Rightarrow> string" where
  "ext_scan [] suffix = []"
| "ext_scan (c # front) suffix =
     (if IsPathSeparator c then []
      else if c = CHR ''.'' then c # suffix
      else ext_scan front (c # suffix))"

definition Ext :: "string \<Rightarrow> string" where
  "Ext path = ext_scan (rev path) []"


text \<open>\<^verbatim>\<open>strings.ToLower\<close>: the ASCII case is the library's own loop.\<close>

definition ToLower :: "runtime \<Rightarrow> string \<Rightarrow> string" where
  "ToLower rt s = (if list_all is_ascii s then map ascii_lower s else unicode_lower rt s)"

subsection \<open>SafeFS\<close>

text \<open>
  \<^verbatim>\<open>maxFileSize\<close> is an \<^verbatim>\<open>int64\<close> that is only compared, with lengths and sizes that fit
  an \<^verbatim>\<open>int64\<close>; \<^typ>\<open>int\<close> is used. \<^verbatim>\<open>allowedExts\<close> is a map to \<^verbatim>\<open>true\<close>, kept as the list of
  its keys. \<^verbatim>\<open>auditLogger\<close> is present or \<^verbatim>\<open>nil\<close>.
\<close>

record Config =
  cfg_BasePaths :: "string list"
  cfg_MaxFileSize :: int
  cfg_AllowedExts :: "string list"
  cfg_DeniedPaths :: "string list"
  cfg_AuditLogger :: bool

record SafeFS =
  basePaths :: "string list"
  maxFileSize :: int
  allowedExts :: "string list"
  deniedPaths :: "string list"
  auditLogger :: bool

definition NewSafeFS :: "runtime \<Rightarrow> Config \<Rightarrow> SafeFS" where
  "NewSafeFS rt config =
     \<lparr>basePaths = cfg_BasePaths config,
      maxFileSize = cfg_MaxFileSize config,
      allowedExts = remdups (map (ToLower rt) (cfg_AllowedExts config)),
      deniedPaths = cfg_DeniedPaths config,
      auditLogger = cfg_AuditLogger config\<rparr>"

datatype fs_error =
  ErrPathOutsideBase | ErrPathTraversal | ErrFileTooBig | ErrExtNotAllowed | ErrPathDenied
| ErrInvalidPath | Wrapped string string


text \<open>The two loops of \<^verbatim>\<open>ValidatePath\<close>, over the base paths and over the denied paths.\<close>

fun under_base :: "runtime \<Rightarrow> string \<Rightarrow> string list \<Rightarrow> bool" where
  "under_base rt absPath [] = False"
| "under_base rt absPath (basePath # rest) =
     (case Abs rt basePath of
        Inl err \<Rightarrow> under_base rt absPath rest
      | Inr absBasePath \<Rightarrow>
          (case Rel absBasePath absPath of
             Inl err \<Rightarrow> under_base rt absPath rest
           | Inr rel \<Rightarrow> if \<not> HasPrefix rel ''..'' then True else under_base rt absPath rest))"

fun denied :: "runtime \<Rightarrow> string \<Rightarrow> string list \<Rightarrow> bool" where
  "denied rt absPath [] = False"
| "denied rt absPath (deniedPath # rest) =
     (case Abs rt deniedPath of
        Inl err \<Rightarrow> denied rt absPath rest
      | Inr absDenied \<Rightarrow> if HasPrefix absPath absDenied then True else denied rt absPath rest)"

definition ValidatePath :: "SafeFS \<Rightarrow> runtime \<Rightarrow> string \<Rightarrow> fs_error option" where
  "ValidatePath fs rt path =
     (let cleanPath = Clean path
      in if Contains cleanPath ''..'' then Some ErrPathTraversal
         else case Abs rt cleanPath of
                Inl err \<Rightarrow> Some (Wrapped ''failed to resolve absolute path'' err)
              | Inr absPath \<Rightarrow>
                  if \<not> under_base rt absPath (basePaths fs) then Some ErrPathOutsideBase
                  else if denied rt absPath (deniedPaths fs) then Some ErrPathDenied
                  else if length (allowedExts fs) > 0 then
                    (let ext = ToLower rt (Ext absPath)
                     in if ext \<notin> set (allowedExts fs) then Some ErrExtNotAllowed else None)
                  else None)"

subsection \<open>Reading and writing\<close>


record AuditEntry =
  Operation :: string
  Path :: string
  User :: string
  Succeeded :: bool
  Details :: string










text \<open>
  The buffer of \<^verbatim>\<open>Clean\<close> on a rooted path: it starts with the separator, holds no
  \<^verbatim>\<open>..\<close>, and \<^verbatim>\<open>dotdot\<close> stays at 1.
\<close>

definition rooted_clean :: "string \<times> nat \<Rightarrow> bool" where
  "rooted_clean buffer = (case buffer of (out, dotdot) \<Rightarrow>
     dotdot = 1 \<and> out \<noteq> [] \<and> hd out = CHR ''/'' \<and> \<not> Contains out ''..'')"

text \<open>Examples: the sandbox of the server, a host started in \<^verbatim>\<open>/srv\<close> whose calls all succeed.\<close>

definition unix_runtime :: runtime where
  "unix_runtime = \<lparr>getwd = Inr ''/srv'', unicode_lower = (\<lambda>s. s)\<rparr>"

definition server_fs :: SafeFS where
  "server_fs =
     NewSafeFS unix_runtime
       \<lparr>cfg_BasePaths = [''/tmp'', ''/home'', ''/workspace''],
        cfg_MaxFileSize = 10 * 1024 * 1024,
        cfg_AllowedExts = [''.txt'', ''.md'', ''.json'', ''.yaml'', ''.yml'', ''.log''],
        cfg_DeniedPaths = [], cfg_AuditLogger = True\<rparr>"




section \<open>Properties of gadget names\<close>










lemma allowed_rune_code:
  "allowed_rune r \<longleftrightarrow> (let n = (of_char r :: nat) in (97 \<le> n \<and> n \<le> 122) \<or> (65 \<le> n \<and> n \<le> 90) \<or> (48 \<le> n \<and> n \<le> 57) \<or> n = 45 \<or> n = 95)"
proof -
  have inj: "\<And>x y::char. x = y \<longleftrightarrow> (of_char x :: nat) = of_char y" by simp
  show ?thesis
    unfolding allowed_rune_def Let_def less_eq_char_def inj[of r] by simp
qed

lemma name_charset_code:
  "c \<in> name_charset \<longleftrightarrow> (of_char c :: nat) \<in> set ([65..<91] @ [97..<123] @ [48..<58] @ [95, 45])"
proof -
  have "(of_char c :: nat) \<in> of_char ` name_charset \<longleftrightarrow> c \<in> name_charset"
    by (rule inj_image_mem_iff) (simp add: inj_on_def)
  moreover have "(of_char ` name_charset :: nat set) = set ([65..<91] @ [97..<123] @ [48..<58] @ [95, 45])"
    unfolding name_charset_def set_map[symmetric]
    by (rule arg_cong[where f=set]) code_simp
  ultimately show ?thesis by simp
qed

lemma allowed_rune_charset: "allowed_rune c \<longleftrightarrow> c \<in> name_charset"
proof -
  have "(of_char c :: nat) \<in> set ([65..<91] @ [97..<123] @ [48..<58] @ [95, 45]) \<longleftrightarrow>
        (let n = (of_char c :: nat) in (97 \<le> n \<and> n \<le> 122) \<or> (65 \<le> n \<and> n \<le> 90) \<or> (48 \<le> n \<and> n \<le> 57) \<or> n = 45 \<or> n = 95)"
    unfolding set_append set_upt Let_def by (simp only: Un_iff atLeastLessThan_iff set_simps insert_iff empty_iff) arith
  then show ?thesis
    unfolding allowed_rune_code name_charset_code by simp
qed

lemma valid_runes_all: "valid_runes name \<longleftrightarrow> (\<forall>c\<in>set name. allowed_rune c)"
  by (induction name) auto

lemma isValidGadgetName_iff:
  "isValidGadgetName name \<longleftrightarrow> 1 \<le> length name \<and> length name \<le> 50 \<and> (\<forall>c\<in>set name. c \<in> name_charset)"
  by (cases name) (auto simp: isValidGadgetName_def valid_runes_all allowed_rune_charset)










lemma Enforce_Inr: "Enforce cm s ob a = Inr (list_ex (matches cm s ob a) (policy cm))"
  by (simp add: Enforce_def enforcer_Enforce_def)

lemma require_roles_iff:
  "require_roles cm rs ob a = None \<longleftrightarrow> role_allowed cm rs ob a"
  by (induction rs) (auto simp: Enforce_Inr)

lemma RequirePermission_iff:
  "RequirePermission cm ob a c = None \<longleftrightarrow> CheckPermission cm c ob a"
  by (auto simp: RequirePermission_def CheckPermission_def CheckUserPermission_def Enforce_Inr
      GetUserFromContext_def require_roles_iff split: option.splits)

lemma require_roles_status:
  "require_roles cm rs ob a = Some r \<Longrightarrow> status r = 403"
  by (induction rs) (auto simp: Enforce_Inr split: if_splits)

lemma RequirePermission_status:
  "user_claims c = Some cl \<Longrightarrow> RequirePermission cm ob a c = Some r \<Longrightarrow> status r = 403"
  by (auto simp: RequirePermission_def CheckUserPermission_def Enforce_Inr
      GetUserFromContext_def split: option.splits if_splits dest: require_roles_status)

lemma ExecuteGadget_invalid:
  "\<not> isValidGadgetName name \<Longrightarrow>
   ExecuteGadget gi run c name bound =
     (\<lparr>status = 400, content = H [(''error'', HStr ''Invalid gadget name'')]\<rparr>, [])"
  by (simp add: ExecuteGadget_def)

lemma ExecuteGadget_system_none:
  assumes "isSystemGadget name" "\<not> CheckPermission (rbacMiddleware gi) c ''system'' ''manage''"
  shows "snd (ExecuteGadget gi run c name bound) = []"
  using assms
  by (auto simp: ExecuteGadget_def GetUserFromContext_def split: sum.splits option.splits)

lemma ExecuteGadget_system_403:
  assumes "isSystemGadget name" "\<not> CheckPermission (rbacMiddleware gi) c ''system'' ''manage''"
    "isValidGadgetName name" "user_claims c = Some cl"
  shows "status (fst (ExecuteGadget gi run c name (Inr req))) = 403"
  using assms
  by (auto simp: ExecuteGadget_def GetUserFromContext_def split: sum.splits option.splits)

lemma ExecuteGadget_runs:
  assumes "isValidGadgetName name" "bound = Inr req" "user_claims c = Some cl"
    "\<not> isSystemGadget name \<or> CheckPermission (rbacMiddleware gi) c ''system'' ''manage''"
  shows "snd (ExecuteGadget gi run c name bound) = [(gadgetBinaryPath gi, [''run'', name] @ Args req)]"
  using assms
  by (auto simp: ExecuteGadget_def GetUserFromContext_def executeGadgetCommand_def Let_def
      split: sum.splits option.splits prod.splits)

lemma execute_route_cases:
  "execute_route gi run c name bound =
     (if CheckPermission (rbacMiddleware gi) c ''gadgets'' ''execute''
      then ExecuteGadget gi run c name bound
      else (the (RequirePermission (rbacMiddleware gi) ''gadgets'' ''execute'' c), []))"
  using RequirePermission_iff[of "rbacMiddleware gi" "''gadgets''" "''execute''" c]
  by (cases "RequirePermission (rbacMiddleware gi) ''gadgets'' ''execute'' c")
     (auto simp: execute_route_def)

lemma CheckPermission_claims: "CheckPermission cm c ob a \<Longrightarrow> user_claims c \<noteq> None"
  by (auto simp: CheckPermission_def GetUserFromContext_def split: option.splits)

lemma isSystemGadget_no_name: "\<not> isSystemGadget []"
  by code_simp

lemma sysinfo_route_cases:
  "sysinfo_route gi run c bound =
     (case AdminOnly (rbacMiddleware gi) c of
        Some refusal \<Rightarrow> (refusal, [])
      | None \<Rightarrow> (\<lparr>status = 400, content = H [(''error'', HStr ''Not a system gadget'')]\<rparr>, []))"
  by (simp add: sysinfo_route_def ExecuteSystemGadget_def Recovery_def isSystemGadget_no_name
      split: option.splits)

lemma sysinfo_route_none: "snd (sysinfo_route gi run c bound) = []"
  by (simp add: sysinfo_route_cases split: option.splits)

lemma CheckUserRole_Inr:
  "\<exists>hasRole. CheckUserRole cm user role = Inr hasRole"
  by (simp add: CheckUserRole_def GetUserRoles_def GetRolesForUser_def)

lemma sysinfo_route_status:
  assumes "user_claims c = Some cl"
  shows "status (fst (sysinfo_route gi run c bound)) =
     (if CheckUserRole (rbacMiddleware gi) (Username cl) ''admin'' = Inr True then 400 else 403)"
proof -
  obtain hasRole where h: "CheckUserRole (rbacMiddleware gi) (Username cl) ''admin'' = Inr hasRole"
    using CheckUserRole_Inr by blast
  show ?thesis
    using assms h
    by (cases hasRole)
       (simp_all add: sysinfo_route_cases AdminOnly_def RequireRole_def GetUserFromContext_def)
qed

text \<open>
  C6. A gadget name passes \<^verbatim>\<open>isValidGadgetName\<close> exactly when it has 1 to 50
  characters, all of them in \<^verbatim>\<open>[A-Za-z0-9_-]\<close>; for a name that does not pass,
  \<^verbatim>\<open>ExecuteGadget\<close> answers 400 and starts no process, whatever the body, the caller and
  the policies.
\<close>

theorem gadget_name_validation:
  "(isValidGadgetName name \<longleftrightarrow>
      1 \<le> length name \<and> length name \<le> 50 \<and> (\<forall>c\<in>set name. c \<in> name_charset)) \<and>
   (\<not> isValidGadgetName name \<longrightarrow>
      status (fst (ExecuteGadget gi run c name bound)) = 400 \<and>
      snd (ExecuteGadget gi run c name bound) = [])"
  using isValidGadgetName_iff[of name]
    ExecuteGadget_invalid[where name=name and gi=gi and run=run and c=c and bound=bound] by simp

theorem gadget_name_validation_witness:
  "isValidGadgetName ''a'' \<and> isValidGadgetName (replicate 50 (CHR ''a'')) \<and>
   \<not> isValidGadgetName [] \<and> \<not> isValidGadgetName (replicate 51 (CHR ''a'')) \<and>
   \<not> isValidGadgetName ''rm -rf'' \<and>
   status (fst (ExecuteGadget launcher quiet_host (caller ''admin'' [''admin'']) ''rm -rf''
     (Inr empty_request))) = 400 \<and>
   snd (ExecuteGadget launcher quiet_host (caller ''admin'' [''admin'']) ''rm -rf''
     (Inr empty_request)) = []"
proof -
  have a: "CHR ''a'' \<in> name_charset" by (simp add: name_charset_def)
  have sp: "CHR '' '' \<notin> name_charset" by (simp add: name_charset_def)
  have v1: "isValidGadgetName ''a''"
    using gadget_name_validation[of "''a''"] a by simp
  have v50: "isValidGadgetName (replicate 50 (CHR ''a''))"
    using gadget_name_validation[of "replicate 50 (CHR ''a'')"] a by simp
  have v0: "\<not> isValidGadgetName []"
    using gadget_name_validation[of "[]"] by simp
  have v51: "\<not> isValidGadgetName (replicate 51 (CHR ''a''))"
    using gadget_name_validation[of "replicate 51 (CHR ''a'')"] by simp
  have bad: "\<not> isValidGadgetName ''rm -rf''"
    using gadget_name_validation[of "''rm -rf''"] sp by simp
  from bad gadget_name_validation[where name="''rm -rf''" and gi=launcher and run=quiet_host and
      c="caller ''admin'' [''admin'']" and bound="Inr empty_request"] v1 v50 v0 v51
  show ?thesis by blast
qed



section \<open>Properties of the execute routes\<close>

text \<open>
  The route \<^verbatim>\<open>/sysinfo/execute\<close> on the seeded store: the administrator passes
  \<^verbatim>\<open>AdminOnly()\<close>, the handler finds no parameter \<^verbatim>\<open>name\<close> and answers 400; nothing is
  started.
\<close>

lemma sysinfo_route_admin:
  "gadgets_execute launcher quiet_host (caller ''admin'' [''admin'']) ''sysinfo''
     (Inr empty_request) =
     (\<lparr>status = 400, content = H [(''error'', HStr ''Not a system gadget'')]\<rparr>, [])"
  by code_simp

text \<open>
  C2, as the code has it. For a system-classified name and a caller without
  \<^verbatim>\<open>(system, manage)\<close>, directly and through every role, no process is started, by the
  handler \<^verbatim>\<open>ExecuteGadget\<close> or by the router; when moreover the name is a valid gadget
  name, the request body binds and the caller is authenticated, the handler answers 403,
  and so does the router for every such name but \<^verbatim>\<open>sysinfo\<close> in exactly this spelling,
  which it gives to the other route. For a valid name that is not system-classified and
  a body that binds, the router starts the gadget exactly when the caller has
  \<^verbatim>\<open>(gadgets, execute)\<close>, directly or through a role.
\<close>

theorem system_gadget_needs_manage:
  "(isSystemGadget name \<and> \<not> CheckPermission (rbacMiddleware gi) c ''system'' ''manage'' \<longrightarrow>
      snd (ExecuteGadget gi run c name bound) = [] \<and>
      snd (gadgets_execute gi run c name bound) = [] \<and>
      (isValidGadgetName name \<and> bound = Inr req \<and> user_claims c = Some cl \<longrightarrow>
         status (fst (ExecuteGadget gi run c name bound)) = 403 \<and>
         (name \<noteq> ''sysinfo'' \<longrightarrow> status (fst (gadgets_execute gi run c name bound)) = 403))) \<and>
   (\<not> isSystemGadget name \<and> isValidGadgetName name \<and> bound = Inr req \<longrightarrow>
      snd (gadgets_execute gi run c name bound) =
        (if CheckPermission (rbacMiddleware gi) c ''gadgets'' ''execute''
         then [(gadgetBinaryPath gi, [''run'', name] @ Args req)] else []))"
proof -
  have sys: "snd (ExecuteGadget gi run c name bound) = [] \<and>
      snd (gadgets_execute gi run c name bound) = [] \<and>
      (isValidGadgetName name \<and> bound = Inr req \<and> user_claims c = Some cl \<longrightarrow>
         status (fst (ExecuteGadget gi run c name bound)) = 403 \<and>
         (name \<noteq> ''sysinfo'' \<longrightarrow> status (fst (gadgets_execute gi run c name bound)) = 403))"
    if s: "isSystemGadget name" and np: "\<not> CheckPermission (rbacMiddleware gi) c ''system'' ''manage''"
  proof -
    have none: "snd (ExecuteGadget gi run c name bound) = []"
      by (rule ExecuteGadget_system_none[OF s np])
    then have rnone: "snd (gadgets_execute gi run c name bound) = []"
      by (simp add: gadgets_execute_def execute_route_cases sysinfo_route_none)
    have "status (fst (ExecuteGadget gi run c name bound)) = 403 \<and>
         (name \<noteq> ''sysinfo'' \<longrightarrow> status (fst (gadgets_execute gi run c name bound)) = 403)"
      if v: "isValidGadgetName name" and b: "bound = Inr req" and cl: "user_claims c = Some cl"
    proof -
      have h: "status (fst (ExecuteGadget gi run c name bound)) = 403"
        unfolding b by (rule ExecuteGadget_system_403[OF s np v cl])
      have "status (fst (execute_route gi run c name bound)) = 403"
      proof (cases "RequirePermission (rbacMiddleware gi) ''gadgets'' ''execute'' c")
        case None
        then show ?thesis using h by (simp add: execute_route_def)
      next
        case (Some r)
        then show ?thesis using RequirePermission_status[OF cl Some]
          by (simp add: execute_route_def)
      qed
      with h show ?thesis by (simp add: gadgets_execute_def)
    qed
    with none rnone show ?thesis by blast
  qed
  have norm: "snd (gadgets_execute gi run c name bound) =
        (if CheckPermission (rbacMiddleware gi) c ''gadgets'' ''execute''
         then [(gadgetBinaryPath gi, [''run'', name] @ Args req)] else [])"
    if n: "\<not> isSystemGadget name" and v: "isValidGadgetName name" and b: "bound = Inr req"
  proof -
    have sysinfo: "isSystemGadget ''sysinfo''" by code_simp
    with n have ne: "name \<noteq> ''sysinfo''" by blast
    show ?thesis
    proof (cases "CheckPermission (rbacMiddleware gi) c ''gadgets'' ''execute''")
      case True
      from CheckPermission_claims[OF True] obtain cl' where cl': "user_claims c = Some cl'" by blast
      from ExecuteGadget_runs[OF v b cl', where gi=gi and run=run] n True ne show ?thesis
        by (simp add: gadgets_execute_def execute_route_cases)
    next
      case False
      then show ?thesis using ne by (simp add: gadgets_execute_def execute_route_cases)
    qed
  qed
  from sys norm show ?thesis by blast
qed

theorem system_gadget_needs_manage_witness:
  "status (fst (ExecuteGadget launcher quiet_host (caller ''user'' [''user'']) ''hardware''
     (Inr empty_request))) = 403 \<and>
   status (fst (gadgets_execute launcher quiet_host (caller ''user'' [''user'']) ''hardware''
     (Inr empty_request))) = 403 \<and>
   snd (gadgets_execute launcher quiet_host (caller ''user'' [''user'']) ''hardware''
     (Inr empty_request)) = [] \<and>
   snd (gadgets_execute launcher quiet_host (caller ''user'' [''user'']) ''sysinfo''
     (Inr empty_request)) = [] \<and>
   snd (gadgets_execute launcher quiet_host (caller ''user'' [''user'']) ''echo''
     (Inr empty_request)) = [(''/opt/go-go-gadget'', [''run'', ''echo''])] \<and>
   snd (gadgets_execute launcher quiet_host (caller ''guest'' [''readonly'']) ''echo''
     (Inr empty_request)) = []"
proof -
  let ?u = "caller ''user'' [''user'']"
  let ?g = "caller ''guest'' [''readonly'']"
  have s: "isSystemGadget ''hardware''" by code_simp
  have ss: "isSystemGadget ''sysinfo''" by code_simp
  have np: "\<not> CheckPermission (rbacMiddleware launcher) ?u ''system'' ''manage''" by code_simp
  have v: "isValidGadgetName ''hardware''" by code_simp
  have ne: "''hardware'' \<noteq> ''sysinfo''" by simp
  have cl: "user_claims ?u = Some (the (user_claims ?u))" by (simp add: caller_def)
  have n: "\<not> isSystemGadget ''echo''" by code_simp
  have ve: "isValidGadgetName ''echo''" by code_simp
  have pu: "CheckPermission (rbacMiddleware launcher) ?u ''gadgets'' ''execute''" by code_simp
  have pg: "\<not> CheckPermission (rbacMiddleware launcher) ?g ''gadgets'' ''execute''" by code_simp
  have bin: "gadgetBinaryPath launcher = ''/opt/go-go-gadget''" by (simp add: launcher_def)
  have ar: "Args empty_request = []" by (simp add: empty_request_def)
  note t1 = system_gadget_needs_manage[where name="''hardware''" and gi=launcher and c="?u" and
      run=quiet_host and bound="Inr empty_request" and req=empty_request and
      cl="the (user_claims ?u)"]
  note t2 = system_gadget_needs_manage[where name="''echo''" and gi=launcher and c="?u" and
      run=quiet_host and bound="Inr empty_request" and req=empty_request]
  note t3 = system_gadget_needs_manage[where name="''echo''" and gi=launcher and c="?g" and
      run=quiet_host and bound="Inr empty_request" and req=empty_request]
  note t4 = system_gadget_needs_manage[where name="''sysinfo''" and gi=launcher and c="?u" and
      run=quiet_host and bound="Inr empty_request" and req=empty_request and
      cl="the (user_claims ?u)"]
  from t1 s np v cl ne have
    "status (fst (ExecuteGadget launcher quiet_host ?u ''hardware'' (Inr empty_request))) = 403"
    "status (fst (gadgets_execute launcher quiet_host ?u ''hardware'' (Inr empty_request))) = 403"
    "snd (gadgets_execute launcher quiet_host ?u ''hardware'' (Inr empty_request)) = []"
    by blast+
  moreover from t4 ss np have
    "snd (gadgets_execute launcher quiet_host ?u ''sysinfo'' (Inr empty_request)) = []"
    by blast
  moreover from t2 n ve pu bin ar have
    "snd (gadgets_execute launcher quiet_host ?u ''echo'' (Inr empty_request)) =
       [(''/opt/go-go-gadget'', [''run'', ''echo''])]"
    by simp
  moreover from t3 n ve pg have
    "snd (gadgets_execute launcher quiet_host ?g ''echo'' (Inr empty_request)) = []"
    by simp
  ultimately show ?thesis by blast
qed

text \<open>
  The claim as stated fails when the body does not bind: the name is system-classified,
  the caller is authenticated, holds \<^verbatim>\<open>(gadgets, execute)\<close> and lacks
  \<^verbatim>\<open>(system, manage)\<close>, and the answer is 400. It fails as well on a system-classified
  name that is not a valid gadget name (\<^verbatim>\<open>sysinfo\<close> written with a long s): the answer
  is 400.
\<close>

theorem system_gadget_bad_body_400:
  "isSystemGadget ''hardware'' \<and>
   user_claims (caller ''user'' [''user'']) \<noteq> None \<and>
   \<not> CheckPermission (rbacMiddleware launcher) (caller ''user'' [''user'']) ''system'' ''manage'' \<and>
   status (fst (ExecuteGadget launcher quiet_host (caller ''user'' [''user'']) ''hardware''
     (Inl ''EOF''))) = 400 \<and>
   status (fst (gadgets_execute launcher quiet_host (caller ''user'' [''user'']) ''hardware''
     (Inl ''EOF''))) = 400 \<and>
   isSystemGadget ([CHR 0xC5, CHR 0xBF] @ ''ysinfo'') \<and>
   status (fst (ExecuteGadget launcher quiet_host (caller ''user'' [''user''])
     ([CHR 0xC5, CHR 0xBF] @ ''ysinfo'') (Inr empty_request))) = 400 \<and>
   status (fst (gadgets_execute launcher quiet_host (caller ''user'' [''user''])
     ([CHR 0xC5, CHR 0xBF] @ ''ysinfo'') (Inr empty_request))) = 400"
  by code_simp

section \<open>Properties of the default policies\<close>

lemma initializeDefaults_nonempty:
  "policy cm \<noteq> [] \<Longrightarrow> initializeDefaults db cm = (None, cm)"
  by (simp add: initializeDefaults_def GetPolicy_def)

lemma add_defaults_grows:
  "add_defaults db e ps = (r, e') \<Longrightarrow> \<exists>ys. e' = e\<lparr>policy := policy e @ ys\<rparr>"
proof (induction ps arbitrary: e)
  case Nil
  then have "e' = e\<lparr>policy := policy e @ []\<rparr>" by simp
  then show ?case by blast
next
  case (Cons p ps)
  let ?r = "[Subject_p p, Object_p p, Action_p p]"
  show ?case
  proof (cases "enforcer_AddPolicy db e ?r")
    case (Pair res e1)
    have e1: "e1 = e \<or> e1 = e\<lparr>policy := policy e @ [?r]\<rparr>"
      using Pair by (auto simp: enforcer_AddPolicy_def split: if_splits option.splits)
    show ?thesis
    proof (cases res)
      case (Inl err)
      with Pair Cons.prems have "e' = e1" by simp
      moreover from Pair Inl have "e1 = e"
        by (auto simp: enforcer_AddPolicy_def split: if_splits option.splits)
      ultimately have "e' = e\<lparr>policy := policy e @ []\<rparr>" by simp
      then show ?thesis by blast
    next
      case (Inr added)
      with Pair Cons.prems have "add_defaults db e1 ps = (r, e')" by simp
      from Cons.IH[OF this] obtain ys where ys: "e' = e1\<lparr>policy := policy e1 @ ys\<rparr>" by blast
      from e1 show ?thesis
      proof
        assume "e1 = e" with ys show ?thesis by blast
      next
        assume "e1 = e\<lparr>policy := policy e @ [?r]\<rparr>"
        with ys have "e' = e\<lparr>policy := policy e @ (?r # ys)\<rparr>" by simp
        then show ?thesis by blast
      qed
    qed
  qed
qed

lemma add_defaults_policy_empty:
  assumes "add_defaults db e ps = (r, e')" "policy e' = []"
  shows "e' = e"
proof -
  from add_defaults_grows[OF assms(1)] obtain ys where ys: "e' = e\<lparr>policy := policy e @ ys\<rparr>" by blast
  with assms(2) have "policy e = []" "ys = []" by simp_all
  with ys show ?thesis by simp
qed

lemma initializeDefaults_state:
  "snd (initializeDefaults db cm) = (if policy cm \<noteq> [] then cm else snd (add_defaults db cm DefaultPermissions))"
  by (auto simp: initializeDefaults_def GetPolicy_def split: prod.splits option.splits)

lemma initializeDefaults_idem:
  "snd (initializeDefaults db (snd (initializeDefaults db cm))) = snd (initializeDefaults db cm)"
proof (cases "policy (snd (initializeDefaults db cm)) = []")
  case False
  then show ?thesis by (simp add: initializeDefaults_nonempty)
next
  case True
  have "snd (initializeDefaults db cm) = cm"
  proof (cases "policy cm = []")
    case False then show ?thesis by (simp add: initializeDefaults_nonempty)
  next
    case e: True
    obtain r e' where r: "add_defaults db cm DefaultPermissions = (r, e')" by (cases "add_defaults db cm DefaultPermissions")
    with True e have "policy e' = []" by (simp add: initializeDefaults_state)
    from add_defaults_policy_empty[OF r this] r e show ?thesis by (simp add: initializeDefaults_state)
  qed
  then show ?thesis by simp
qed

lemma add_defaults_first:
  "add_defaults db e (p # ps) = (None, e') \<Longrightarrow> policy e' \<noteq> []"
proof -
  assume a: "add_defaults db e (p # ps) = (None, e')"
  let ?r = "[Subject_p p, Object_p p, Action_p p]"
  obtain res e1 where s: "enforcer_AddPolicy db e ?r = (res, e1)" by (cases "enforcer_AddPolicy db e ?r")
  with a obtain added where "res = Inr added" and rest: "add_defaults db e1 ps = (None, e')"
    by (cases res) auto
  with s have "policy e1 \<noteq> []"
    by (auto simp: enforcer_AddPolicy_def split: if_splits option.splits)
  moreover from add_defaults_grows[OF rest] obtain ys where "e' = e1\<lparr>policy := policy e1 @ ys\<rparr>" by blast
  ultimately show ?thesis by simp
qed

lemma initializeDefaults_success_nonempty:
  assumes "fst (initializeDefaults db cm) = None"
  shows "policy (snd (initializeDefaults db cm)) \<noteq> []"
proof (cases "policy cm = []")
  case False then show ?thesis by (simp add: initializeDefaults_nonempty)
next
  case True
  obtain r e' where r: "add_defaults db cm DefaultPermissions = (r, e')" by (cases "add_defaults db cm DefaultPermissions")
  with assms True have "r = None"
    by (auto simp: initializeDefaults_def GetPolicy_def split: option.splits)
  moreover obtain p ps where "DefaultPermissions = p # ps"
    unfolding DefaultPermissions_def by blast
  ultimately have "policy e' \<noteq> []"
    using r add_defaults_first[of db cm p ps e'] by simp
  with r True show ?thesis by (simp add: initializeDefaults_state)
qed

lemma distinct_defaults: "distinct default_rules"
  by code_simp

lemma add_defaults_distinct:
  assumes "\<forall>rule. add_err db rule = None"
  shows "distinct (policy e @ map (\<lambda>perm. [Subject_p perm, Object_p perm, Action_p perm]) ps) \<Longrightarrow>
   add_defaults db e ps = (None, e\<lparr>policy := policy e @ map (\<lambda>perm. [Subject_p perm, Object_p perm, Action_p perm]) ps\<rparr>)"
proof (induction ps arbitrary: e)
  case Nil
  then show ?case by simp
next
  case (Cons p ps)
  let ?r = "[Subject_p p, Object_p p, Action_p p]"
  from Cons.prems have notin: "?r \<notin> set (policy e)" by auto
  have step: "enforcer_AddPolicy db e ?r = (Inr True, e\<lparr>policy := policy e @ [?r]\<rparr>)"
    using notin assms by (simp add: enforcer_AddPolicy_def)
  have "distinct (policy (e\<lparr>policy := policy e @ [?r]\<rparr>) @ map (\<lambda>perm. [Subject_p perm, Object_p perm, Action_p perm]) ps)"
    using Cons.prems by simp
  from Cons.IH[OF this] step show ?case by simp
qed

lemma initializeDefaults_seeds:
  assumes "policy cm = []" "\<forall>rule. add_err db rule = None" "save_err db = None"
  shows "initializeDefaults db cm = (None, cm\<lparr>policy := default_rules\<rparr>)"
proof -
  have "add_defaults db cm DefaultPermissions = (None, cm\<lparr>policy := policy cm @ default_rules\<rparr>)"
    unfolding default_rules_def
    by (rule add_defaults_distinct[OF assms(2)]) (use assms(1) distinct_defaults in \<open>simp add: default_rules_def\<close>)
  then show ?thesis
    using assms by (simp add: initializeDefaults_def GetPolicy_def enforcer_SavePolicy_def)
qed

text \<open>
  C8. \<^verbatim>\<open>initializeDefaults\<close> leaves a store that holds a rule as it is; on an empty
  store whose adapter does not fail it installs the default rules; applied again to the
  store it produced it changes nothing, and after a first application that succeeded a
  second one succeeds and changes nothing whatever the adapter then does.
\<close>

theorem seed_defaults_idempotent:
  "(policy cm \<noteq> [] \<longrightarrow> initializeDefaults db cm = (None, cm)) \<and>
   (policy cm = [] \<and> (\<forall>rule. add_err db rule = None) \<and> save_err db = None \<longrightarrow>
      initializeDefaults db cm = (None, cm\<lparr>policy := default_rules\<rparr>)) \<and>
   snd (initializeDefaults db (snd (initializeDefaults db cm))) = snd (initializeDefaults db cm) \<and>
   (fst (initializeDefaults db cm) = None \<longrightarrow>
      initializeDefaults db' (snd (initializeDefaults db cm)) =
        (None, snd (initializeDefaults db cm)))"
  using initializeDefaults_nonempty[where cm=cm and db=db]
    initializeDefaults_seeds[where cm=cm and db=db]
    initializeDefaults_idem[where cm=cm and db=db]
    initializeDefaults_nonempty[OF initializeDefaults_success_nonempty, where db1=db and cm1=cm and
      db=db']
  by blast

theorem seed_defaults_idempotent_witness:
  "initializeDefaults reliable \<lparr>policy = [], grouping = []\<rparr> =
     (None, \<lparr>policy = default_rules, grouping = []\<rparr>) \<and>
   initializeDefaults reliable \<lparr>policy = default_rules, grouping = []\<rparr> =
     (None, \<lparr>policy = default_rules, grouping = []\<rparr>) \<and>
   initializeDefaults reliable seeded = (None, seeded)"
proof -
  have r: "(\<forall>rule. add_err reliable rule = None) \<and> save_err reliable = None"
    by (simp add: reliable_def)
  have first: "initializeDefaults reliable \<lparr>policy = [], grouping = []\<rparr> =
     (None, \<lparr>policy = default_rules, grouping = []\<rparr>)"
    using seed_defaults_idempotent[where cm="\<lparr>policy = [], grouping = []\<rparr>" and db=reliable] r by simp
  then have ok: "fst (initializeDefaults reliable \<lparr>policy = [], grouping = []\<rparr>) = None"
    by simp
  have second: "initializeDefaults reliable \<lparr>policy = default_rules, grouping = []\<rparr> =
     (None, \<lparr>policy = default_rules, grouping = []\<rparr>)"
    using seed_defaults_idempotent[where cm="\<lparr>policy = [], grouping = []\<rparr>" and db=reliable and
        db'=reliable] ok first
    by simp
  have ne: "policy seeded \<noteq> []" by (simp add: seeded_def default_rules_def DefaultPermissions_def)
  have third: "initializeDefaults reliable seeded = (None, seeded)"
    using seed_defaults_idempotent[where cm=seeded and db=reliable] ne by blast
  from first second third show ?thesis by blast
qed

section \<open>Properties of the JSON-RPC frames\<close>

text \<open>
  C4, as the code has it. A frame classified as a response has an id, no method and at
  least one of result and error. \<^verbatim>\<open>ValidateMessage\<close> rejects every frame whose version
  is not \<^verbatim>\<open>2.0\<close> and accepts every frame of version \<^verbatim>\<open>2.0\<close> that is classified as a
  response, whether it carries one of result and error or both.
\<close>

theorem response_validation:
  "(IsResponse m \<longrightarrow> ID m \<noteq> Nil \<and> Method m = [] \<and> (Result m \<noteq> Nil \<or> Error_rpc m \<noteq> None)) \<and>
   (JSONRPC m \<noteq> ''2.0'' \<longrightarrow>
      ValidateMessage m =
        Some \<lparr>Code_mcp = - 32600, Message_mcp = ''Invalid JSON-RPC version''\<rparr>) \<and>
   (IsResponse m \<and> JSONRPC m = ''2.0'' \<longrightarrow> ValidateMessage m = None)"
  by (simp add: IsResponse_def IsRequest_def ValidateMessage_def InvalidRequest_def
      invalid_request_def)

theorem response_validation_witness:
  "IsResponse (CreateResponse (Generic ''1'') (Generic ''true'') :: (string, unit) Message) \<and>
   ValidateMessage (CreateResponse (Generic ''1'') (Generic ''true'') :: (string, unit) Message) = None \<and>
   ValidateMessage ((CreateResponse (Generic ''1'') (Generic ''true'') :: (string, unit) Message)
       \<lparr>JSONRPC := ''1.0''\<rparr>) =
     Some \<lparr>Code_mcp = - 32600, Message_mcp = ''Invalid JSON-RPC version''\<rparr>"
proof -
  let ?r = "CreateResponse (Generic ''1'') (Generic ''true'') :: (string, unit) Message"
  have r: "IsResponse ?r" by (simp add: IsResponse_def CreateResponse_def)
  have v: "JSONRPC ?r = ''2.0''" by (simp add: CreateResponse_def)
  have o: "JSONRPC (?r\<lparr>JSONRPC := ''1.0''\<rparr>) \<noteq> ''2.0''" by simp
  from response_validation[where m="?r"] r v have "ValidateMessage ?r = None" by blast
  moreover from response_validation[where m="?r\<lparr>JSONRPC := ''1.0''\<rparr>"] o
  have "ValidateMessage (?r\<lparr>JSONRPC := ''1.0''\<rparr>) =
     Some \<lparr>Code_mcp = - 32600, Message_mcp = ''Invalid JSON-RPC version''\<rparr>" by blast
  ultimately show ?thesis using r by blast
qed

text \<open>
  The claim as stated fails on a frame of version \<^verbatim>\<open>2.0\<close> with an id, no method, a result and
  an error: it is classified as a response and \<^verbatim>\<open>ValidateMessage\<close> returns \<^verbatim>\<open>nil\<close>.
\<close>

theorem response_with_result_and_error_accepted:
  "IsResponse both_set \<and> Result both_set \<noteq> Nil \<and> Error_rpc both_set \<noteq> None \<and>
   ValidateMessage both_set = None"
  by (simp add: both_set_def IsResponse_def IsRequest_def ValidateMessage_def)

lemma json_string_valid: "valid_utf8 s \<Longrightarrow> json_string s = s"
  by (induction s rule: json_string.induct) (auto simp: Let_def)

lemma collect_map:
  "(\<And>x. x \<in> set xs \<Longrightarrow> f x = Inr (g x)) \<Longrightarrow> collect (map f xs) = Inr (map g xs)"
  by (induction xs) simp_all

lemma decimal_digits: "decimal n \<noteq> [] \<and> list_all is_digit (decimal n) \<and> digits_value (decimal n) = n"
proof (induction n rule: decimal.induct)
  case (1 n)
  show ?case
  proof (cases "n < 10")
    case True
    then have d: "decimal n = [char_of (48 + n)]" by (simp add: decimal.simps)
    have "(of_char (char_of (48 + n) :: char) :: nat) = 48 + n" using True by simp
    then show ?thesis using True d
      by (simp add: is_digit_def digits_value_def less_eq_char_def)
  next
    case False
    then have d: "decimal n = decimal (n div 10) @ [char_of (48 + n mod 10)]"
      by (subst decimal.simps) simp
    have c: "(of_char (char_of (48 + n mod 10) :: char) :: nat) = 48 + n mod 10" by simp
    from 1[OF False] c show ?thesis
      unfolding d by (simp add: is_digit_def digits_value_def less_eq_char_def)
  qed
qed

lemma is_digit_not_sign: "is_digit c \<Longrightarrow> c \<noteq> CHR ''-'' \<and> c \<noteq> CHR ''+''"
  by (auto simp: is_digit_def less_eq_char_def)

lemma ParseInt_decimal:
  "ParseInt (decimal n) = (if int n < 2 ^ 63 then Some (int n) else None)"
proof -
  from decimal_digits[of n] obtain c cs where d: "decimal n = c # cs" and
    a: "list_all is_digit (c # cs)" and v: "digits_value (c # cs) = n"
    by (cases "decimal n") auto
  from a is_digit_not_sign[of c] have "c \<noteq> CHR ''-''" "c \<noteq> CHR ''+''" by simp_all
  then show ?thesis using a v unfolding d ParseInt_def Let_def by simp
qed

lemma ParseInt_minus_decimal:
  "ParseInt (CHR ''-'' # decimal n) = (if int n \<le> 2 ^ 63 then Some (- int n) else None)"
proof -
  from decimal_digits[of n] have "decimal n \<noteq> []" "list_all is_digit (decimal n)"
    "digits_value (decimal n) = n" by simp_all
  then show ?thesis unfolding ParseInt_def Let_def by auto
qed

lemma ParseInt_show_int64: "ParseInt (show_int64 c) = Some (sint c)"
proof -
  have lo: "- (2 ^ 63) \<le> sint c" using sint_ge[of c] by simp
  have hi: "sint c < 2 ^ 63" using sint_lt[of c] by simp
  show ?thesis
  proof (cases "sint c < 0")
    case True
    then show ?thesis using lo by (simp add: show_int64_def ParseInt_minus_decimal)
  next
    case False
    then show ?thesis using hi by (simp add: show_int64_def ParseInt_decimal)
  qed
qed

lemma assign_last:
  "\<forall>key' \<in> set (map fst acc). key' < key \<Longrightarrow> assign key v acc = acc @ [(key, v)]"
  by (induction acc) auto

lemma foldl_assign_sorted:
  "sorted_wrt (<) (map fst (acc @ rest)) \<Longrightarrow>
   foldl (\<lambda>m (key, v). assign key v m) acc rest = acc @ rest"
proof (induction rest arbitrary: acc)
  case Nil
  then show ?case by simp
next
  case (Cons e rest)
  obtain key v where e: "e = (key, v)" by (cases e)
  from Cons.prems have lt: "\<forall>key' \<in> set (map fst acc). key' < key"
    by (auto simp: e sorted_wrt_append)
  have "foldl (\<lambda>m (key, v). assign key v m) acc (e # rest) =
      foldl (\<lambda>m (key, v). assign key v m) (acc @ [e]) rest"
    using assign_last[OF lt] by (simp add: e)
  also have "\<dots> = (acc @ [e]) @ rest"
    by (rule Cons.IH) (use Cons.prems in simp)
  finally show ?case by simp
qed

lemma sort_key_sorted:
  "sorted_wrt (<) (map fst (entries :: (string \<times> 'a) list)) \<Longrightarrow> sort_key fst entries = entries"
  by (rule sort_key_id_if_sorted) (rule strict_sorted_imp_sorted)

lemma highest_le: "highest ns \<le> n \<longleftrightarrow> (\<forall>x\<in>set ns. x \<le> n)"
  by (induction ns) (auto simp: highest_def)

lemma highest_cong: "(\<And>x. x \<in> set xs \<Longrightarrow> f x = g x) \<Longrightarrow> highest (map f xs) = highest (map g xs)"
  by (simp cong: map_cong)

lemma value_roundtrip:
  "generic_value k v \<Longrightarrow>
   \<exists>j. encode_value k v = Inr j \<and> decode_value k j = Inr v \<and> (v \<noteq> GNil \<longrightarrow> j \<noteq> JNull) \<and>
       depth j = nesting v"
proof (induction v)
  case GNil
  then show ?case by simp
next
  case (GBool b)
  then show ?case by simp
next
  case (GFloat f)
  then show ?case by simp
next
  case (GString s)
  then show ?case by (simp add: json_string_valid)
next
  case (GSlice vs)
  have "\<forall>v\<in>set vs. \<exists>j. encode_value k v = Inr j \<and> decode_value k j = Inr v \<and>
      depth j = nesting v"
    using GSlice by (auto simp: list_all_iff)
  then obtain g where g: "\<And>v. v \<in> set vs \<Longrightarrow> encode_value k v = Inr (g v) \<and>
      decode_value k (g v) = Inr v \<and> depth (g v) = nesting v"
    by metis
  have deep: "highest (map depth (map g vs)) = highest (map nesting vs)"
    unfolding map_map by (rule highest_cong) (simp add: g)
  have enc: "collect (map (encode_value k) vs) = Inr (map g vs)"
    by (rule collect_map) (simp add: g)
  have dec: "collect (map (decode_value k) (map g vs)) = Inr (map (\<lambda>v. v) vs)"
    unfolding map_map by (rule collect_map) (simp add: g)
  show ?case using enc dec deep by simp
next
  case GNilSlice
  then show ?case by simp
next
  case (GMap entries)
  from GMap.prems have srt: "sorted_wrt (<) (map fst entries)" and
    ok: "\<And>key v. (key, v) \<in> set entries \<Longrightarrow> valid_utf8 key \<and> generic_value k v"
    by (auto simp: list_all_iff)
  have "\<forall>e\<in>set entries. \<exists>j. encode_value k (snd e) = Inr j \<and> decode_value k j = Inr (snd e) \<and>
      depth j = nesting (snd e)"
  proof
    fix e assume e: "e \<in> set entries"
    obtain key v where kv: "e = (key, v)" by (cases e)
    from GMap.IH[of e v] e ok[of key v] show
      "\<exists>j. encode_value k (snd e) = Inr j \<and> decode_value k j = Inr (snd e) \<and>
           depth j = nesting (snd e)"
      by (auto simp: kv)
  qed
  then obtain g where g: "\<And>e. e \<in> set entries \<Longrightarrow>
      encode_value k (snd e) = Inr (g e) \<and> decode_value k (g e) = Inr (snd e) \<and>
      depth (g e) = nesting (snd e)"
    by metis
  have deep: "highest (map (\<lambda>(key, j). depth j) (map (\<lambda>e. (fst e, g e)) entries)) =
      highest (map (\<lambda>(key, v). nesting v) entries)"
    unfolding map_map by (rule highest_cong) (auto simp: g)
  have enc: "collect (map (\<lambda>(key, v). keyed key (encode_value k v)) entries) =
      Inr (map (\<lambda>e. (fst e, g e)) entries)"
  proof (rule collect_map)
    fix e assume e: "e \<in> set entries"
    obtain key v where kv: "e = (key, v)" by (cases e)
    from ok[of key v] e g[OF e] show
      "(case e of (key, v) \<Rightarrow> keyed key (encode_value k v)) = Inr (fst e, g e)"
      by (simp add: kv keyed_def json_string_valid)
  qed
  have dec: "collect (map (\<lambda>(key, j). keyed key (decode_value k j)) (map (\<lambda>e. (fst e, g e)) entries)) =
      Inr (map (\<lambda>e. e) entries)"
    unfolding map_map
  proof (rule collect_map)
    fix e assume e: "e \<in> set entries"
    obtain key v where kv: "e = (key, v)" by (cases e)
    from ok[of key v] e g[OF e] show
      "((\<lambda>(key, j). keyed key (decode_value k j)) \<circ> (\<lambda>e. (fst e, g e))) e = Inr e"
      by (simp add: kv keyed_def json_string_valid)
  qed
  have fold: "foldl (\<lambda>m (key, v). assign key v m) [] entries = entries"
    using foldl_assign_sorted[of "[]" entries] srt by simp
  show ?case using enc dec fold deep sort_key_sorted[OF srt] by simp
next
  case GNilMap
  then show ?case by simp
qed

lemma fold_members_append:
  "fold_members f acc (xs @ ys) =
     (case fold_members f acc xs of Inl err \<Rightarrow> Inl err | Inr acc' \<Rightarrow> fold_members f acc' ys)"
  by (induction xs arbitrary: acc) (auto split: sum.splits)

lemma message_fields:
  "field_is ''jsonrpc'' ''jsonrpc''"
  "\<not> field_is ''id'' ''jsonrpc''" "field_is ''id'' ''id''"
  "\<not> field_is ''method'' ''jsonrpc''" "\<not> field_is ''method'' ''id''" "field_is ''method'' ''method''"
  "\<not> field_is ''params'' ''jsonrpc''" "\<not> field_is ''params'' ''id''"
  "\<not> field_is ''params'' ''method''" "field_is ''params'' ''params''"
  "\<not> field_is ''result'' ''jsonrpc''" "\<not> field_is ''result'' ''id''"
  "\<not> field_is ''result'' ''method''" "\<not> field_is ''result'' ''params''"
  "field_is ''result'' ''result''"
  "\<not> field_is ''error'' ''jsonrpc''" "\<not> field_is ''error'' ''id''"
  "\<not> field_is ''error'' ''method''" "\<not> field_is ''error'' ''params''"
  "\<not> field_is ''error'' ''result''" "field_is ''error'' ''error''"
  by code_simp+

lemma error_fields:
  "field_is ''code'' ''code''"
  "\<not> field_is ''message'' ''code''" "field_is ''message'' ''message''"
  "\<not> field_is ''data'' ''code''" "\<not> field_is ''data'' ''message''" "field_is ''data'' ''data''"
  by code_simp+

lemma dyn_roundtrip:
  assumes "generic_dyn k room v"
  shows "\<exists>w. marshal_dyn k v = Inr w \<and>
             (case w of None \<Rightarrow> v = Nil
              | Some j \<Rightarrow> unmarshal_dyn k j = Inr v \<and> depth j \<le> room)"
proof (cases v)
  case Nil
  then show ?thesis by simp
next
  case (Generic x)
  with assms have "x \<noteq> GNil" "generic_value k x" and n: "nesting x \<le> room"
    by (simp_all add: generic_dyn_def)
  with value_roundtrip[of k x] obtain j where
    "encode_value k x = Inr j" "decode_value k j = Inr x" "j \<noteq> JNull" "depth j = nesting x"
    by blast
  then show ?thesis using Generic n by (simp add: unmarshal_dyn_def)
next
  case (Uint64 n)
  with assms show ?thesis by (simp add: generic_dyn_def)
next
  case (Typed x)
  with assms show ?thesis by (simp add: generic_dyn_def)
qed

lemma member_depth:
  "(case w of None \<Rightarrow> True | Some j \<Rightarrow> depth j \<le> n) \<Longrightarrow>
   \<forall>x\<in>set (map (\<lambda>(key, j). depth j) (member name w)). x \<le> n"
  by (cases w) (simp_all add: member_def)

lemma read_written_string: "valid_utf8 s \<Longrightarrow> read_string (JString (json_string s)) current = Inr s"
  by (simp add: read_string_def json_string_valid)

lemma error_roundtrip:
  assumes "case e of None \<Rightarrow> True
           | Some err \<Rightarrow> generic_dyn k room (Data err) \<and> valid_utf8 (Message err)"
  shows "\<exists>w. marshal_error k e = Inr w \<and>
             (case w of None \<Rightarrow> e = None
              | Some j \<Rightarrow> unmarshal_error k j None = Inr e \<and> depth j \<le> Suc room)"
proof (cases e)
  case None
  then show ?thesis by (simp add: marshal_error_def)
next
  case (Some err)
  with assms have g: "generic_dyn k room (Data err)" and u: "valid_utf8 (Message err)" by simp_all
  from dyn_roundtrip[OF g] obtain d where
    d: "marshal_dyn k (Data err) = Inr d"
       "case d of None \<Rightarrow> Data err = Nil
        | Some j \<Rightarrow> unmarshal_dyn k j = Inr (Data err) \<and> depth j \<le> room"
    by blast
  let ?z = "\<lparr>Code = 0, Message = [], Data = Nil\<rparr> :: (go_value, 'a) RPCError"
  let ?obj = "JObject ([(''code'', JNumber (show_int64 (Code err))),
                        (''message'', JString (json_string (Message err)))] @ member ''data'' d)"
  have enc: "marshal_error k e = Inr (Some ?obj)"
    using Some d(1) by (simp add: marshal_error_def)
  have c: "set_error_member k ?z (''code'', JNumber (show_int64 (Code err))) =
      Inr (?z\<lparr>Code := Code err\<rparr>)"
    by (simp add: set_error_member_def error_fields read_int_def ParseInt_show_int64)
  have m: "set_error_member k (?z\<lparr>Code := Code err\<rparr>)
      (''message'', JString (json_string (Message err))) =
      Inr (?z\<lparr>Code := Code err, Message := Message err\<rparr>)"
    by (simp add: set_error_member_def error_fields read_written_string[OF u])
  have dd: "fold_members (set_error_member k) (?z\<lparr>Code := Code err, Message := Message err\<rparr>)
      (member ''data'' d) = Inr err"
  proof (cases d)
    case None
    with d(2) show ?thesis by (simp add: member_def)
  next
    case (Some j)
    with d(2) show ?thesis by (simp add: member_def set_error_member_def error_fields)
  qed
  have dec: "unmarshal_error k ?obj None = Inr (Some err)"
    using c m dd by (simp add: unmarshal_error_def)
  have "case d of None \<Rightarrow> True | Some j \<Rightarrow> depth j \<le> room"
    using d(2) by (cases d) simp_all
  from member_depth[OF this, of "''data''"] have deep: "depth ?obj \<le> Suc room"
    by (simp add: highest_le)
  from enc dec deep Some show ?thesis by simp
qed

lemma frame_roundtrip:
  assumes "generic_frame k m"
  shows "\<exists>data. MarshalMessage k m = Inr data \<and> UnmarshalMessage k data = Inr m"
proof -
  let ?room = "maxNestingDepth - 1"
  have room: "Suc (maxNestingDepth - 2) = ?room" "Suc ?room = maxNestingDepth"
    by (simp_all add: maxNestingDepth_def)
  from assms have gi: "generic_dyn k ?room (ID m)" and gp: "generic_dyn k ?room (Params m)" and
    gr: "generic_dyn k ?room (Result m)" and uv: "valid_utf8 (JSONRPC m)" and
    um: "valid_utf8 (Method m)" and
    ge: "case Error_rpc m of None \<Rightarrow> True
             | Some err \<Rightarrow> generic_dyn k (maxNestingDepth - 2) (Data err) \<and>
                 valid_utf8 (Message err)"
    by (simp_all add: generic_frame_def)
  from dyn_roundtrip[OF gi] obtain i where
    i: "marshal_dyn k (ID m) = Inr i"
       "case i of None \<Rightarrow> ID m = Nil
        | Some j \<Rightarrow> unmarshal_dyn k j = Inr (ID m) \<and> depth j \<le> ?room" by blast
  from dyn_roundtrip[OF gp] obtain p where
    p: "marshal_dyn k (Params m) = Inr p"
       "case p of None \<Rightarrow> Params m = Nil
        | Some j \<Rightarrow> unmarshal_dyn k j = Inr (Params m) \<and> depth j \<le> ?room" by blast
  from dyn_roundtrip[OF gr] obtain r where
    r: "marshal_dyn k (Result m) = Inr r"
       "case r of None \<Rightarrow> Result m = Nil
        | Some j \<Rightarrow> unmarshal_dyn k j = Inr (Result m) \<and> depth j \<le> ?room" by blast
  from error_roundtrip[OF ge] obtain e where
    e: "marshal_error k (Error_rpc m) = Inr e"
       "case e of None \<Rightarrow> Error_rpc m = None
        | Some j \<Rightarrow> unmarshal_error k j None = Inr (Error_rpc m) \<and> depth j \<le> ?room"
    unfolding room by blast
  let ?named = "if Method m = [] then None else Some (JString (json_string (Method m)))"
  let ?members = "[(''jsonrpc'', JString (json_string (JSONRPC m)))] @ member ''id'' i @
      member ''method'' ?named @ member ''params'' p @ member ''result'' r @ member ''error'' e"
  have enc: "MarshalMessage k m = Inr (Document (JObject ?members))"
    using i(1) p(1) r(1) e(1) by (simp add: MarshalMessage_def)
  have di: "case i of None \<Rightarrow> True | Some j \<Rightarrow> depth j \<le> ?room"
    using i(2) by (cases i) simp_all
  have dp: "case p of None \<Rightarrow> True | Some j \<Rightarrow> depth j \<le> ?room"
    using p(2) by (cases p) simp_all
  have dr: "case r of None \<Rightarrow> True | Some j \<Rightarrow> depth j \<le> ?room"
    using r(2) by (cases r) simp_all
  have de: "case e of None \<Rightarrow> True | Some j \<Rightarrow> depth j \<le> ?room"
    using e(2) by (cases e) simp_all
  have dm: "case ?named of None \<Rightarrow> True | Some j \<Rightarrow> depth j \<le> ?room"
    by simp
  have "\<forall>x\<in>set (map (\<lambda>(key, j). depth j) ?members). x \<le> ?room"
    using member_depth[OF di, of "''id''"] member_depth[OF dp, of "''params''"]
      member_depth[OF dr, of "''result''"] member_depth[OF de, of "''error''"]
      member_depth[OF dm, of "''method''"]
    by (simp only: map_append set_append ball_Un) simp_all
  then have "highest (map (\<lambda>(key, j). depth j) ?members) \<le> ?room"
    by (simp only: highest_le)
  then have "Suc (highest (map (\<lambda>(key, j). depth j) ?members)) \<le> maxNestingDepth"
    using room(2) by linarith
  then have shallow: "\<not> depth (JObject ?members) > maxNestingDepth"
    by (simp only: depth.simps not_less)
  let ?a1 = "\<lparr>JSONRPC = JSONRPC m, ID = Nil, Method = [], Params = Nil, Result = Nil,
               Error_rpc = None\<rparr> :: (go_value, 'a) Message"
  let ?a2 = "\<lparr>JSONRPC = JSONRPC m, ID = ID m, Method = [], Params = Nil, Result = Nil,
               Error_rpc = None\<rparr> :: (go_value, 'a) Message"
  let ?a3 = "\<lparr>JSONRPC = JSONRPC m, ID = ID m, Method = Method m, Params = Nil, Result = Nil,
               Error_rpc = None\<rparr> :: (go_value, 'a) Message"
  let ?a4 = "\<lparr>JSONRPC = JSONRPC m, ID = ID m, Method = Method m, Params = Params m, Result = Nil,
               Error_rpc = None\<rparr> :: (go_value, 'a) Message"
  let ?a5 = "\<lparr>JSONRPC = JSONRPC m, ID = ID m, Method = Method m, Params = Params m,
               Result = Result m, Error_rpc = None\<rparr> :: (go_value, 'a) Message"
  have s1: "fold_members (set_member k) zero_Message
      [(''jsonrpc'', JString (json_string (JSONRPC m)))] = Inr ?a1"
    by (simp add: set_member_def message_fields read_written_string[OF uv] zero_Message_def)
  have s2: "fold_members (set_member k) ?a1 (member ''id'' i) = Inr ?a2"
    using i(2) by (cases i) (simp_all add: member_def set_member_def message_fields)
  have s3: "fold_members (set_member k) ?a2 (member ''method'' ?named) = Inr ?a3"
    by (simp add: member_def set_member_def message_fields read_written_string[OF um])
  have s4: "fold_members (set_member k) ?a3 (member ''params'' p) = Inr ?a4"
    using p(2) by (cases p) (simp_all add: member_def set_member_def message_fields)
  have s5: "fold_members (set_member k) ?a4 (member ''result'' r) = Inr ?a5"
    using r(2) by (cases r) (simp_all add: member_def set_member_def message_fields)
  have s6: "fold_members (set_member k) ?a5 (member ''error'' e) = Inr m"
    using e(2) by (cases e) (simp_all add: member_def set_member_def message_fields)
  have "fold_members (set_member k) zero_Message ?members = Inr m"
    unfolding fold_members_append s1 sum.case s2 s3 s4 s5 s6 ..
  then have dec: "UnmarshalMessage k (Document (JObject ?members)) = Inr m"
    using shallow by (simp only: UnmarshalMessage_def wire.case json.case if_False)
  from enc dec show ?thesis by blast
qed

lemma sample_texts:
  "valid_utf8 ''2.0''" "valid_utf8 ''echo''" "valid_utf8 ''count''" "valid_utf8 ''tools''"
  "valid_utf8 ''Internal error''" "valid_utf8 ''a''" "valid_utf8 ''tools/list''"
  "valid_utf8 [CHR 0xEF, CHR 0xBF, CHR 0xBD]"
  "json_string [CHR 0xFF] = [CHR 0xEF, CHR 0xBF, CHR 0xBD]"
  by code_simp+

lemma decimal_by_codes:
  "(map of_char (decimal n) :: nat list) = map of_char s \<Longrightarrow> decimal n = s"
proof -
  have "inj (of_char :: char \<Rightarrow> nat)" by (rule injI) (simp only: of_char_eq_iff)
  then show "(map of_char (decimal n) :: nat list) = map of_char s \<Longrightarrow> decimal n = s"
    by (simp add: inj_map_eq_map)
qed

lemma sample_code: "show_int64 (- 32603) = ''-32603''"
proof -
  have "sint (- 32603 :: 64 word) = - 32603" by simp
  moreover have "decimal 32603 = ''32603''"
    by (rule decimal_by_codes) (simp add: decimal.simps)
  ultimately show ?thesis by (simp add: show_int64_def)
qed

lemma sample_id: "decimal (Suc 0) = ''1''"
  by (rule decimal_by_codes) (simp add: decimal.simps)

text \<open>
  C5, as the code has it. On a frame whose id, params, result and error data are \<^verbatim>\<open>nil\<close>
  or generic values that come back as they were (booleans, floats that are neither NaN
  nor infinite, strings, slices and maps that are not \<^verbatim>\<open>nil\<close>, of such values or
  \<^verbatim>\<open>nil\<close>), whose strings are valid UTF-8 and whose encoding is nested no deeper than the
  decoder reads, \<^verbatim>\<open>MarshalMessage\<close> succeeds and \<^verbatim>\<open>UnmarshalMessage\<close> of its result is the
  frame again, valid or not.
\<close>

theorem marshal_unmarshal_generic:
  "generic_frame k m \<longrightarrow>
     (\<exists>data. MarshalMessage k m = Inr data \<and> UnmarshalMessage k data = Inr m)"
  using frame_roundtrip by blast

theorem marshal_unmarshal_generic_witness:
  "MarshalMessage sample_library tools_reply =
     Inr (Document (JObject
       [(''jsonrpc'', JString ''2.0''), (''id'', JNumber ''42''),
        (''result'', JObject [(''count'', JNumber ''1''),
                              (''tools'', JArray [JString ''echo'', JNull, JBool True])]),
        (''error'', JObject [(''code'', JNumber ''-32603''),
                             (''message'', JString ''Internal error''),
                             (''data'', JNumber ''0.5'')])])) \<and>
   (\<exists>data. MarshalMessage sample_library tools_reply = Inr data \<and>
      UnmarshalMessage sample_library data = Inr tools_reply)"
proof -
  have g: "generic_frame sample_library tools_reply"
    by (simp add: tools_reply_def generic_frame_def generic_dyn_def IsNaN_def IsInf_def
        exponent_bits_def fraction_bits_def sample_library_def sample_texts highest_def
        maxNestingDepth_def)
  have w: "MarshalMessage sample_library tools_reply =
     Inr (Document (JObject
       [(''jsonrpc'', JString ''2.0''), (''id'', JNumber ''42''),
        (''result'', JObject [(''count'', JNumber ''1''),
                              (''tools'', JArray [JString ''echo'', JNull, JBool True])]),
        (''error'', JObject [(''code'', JNumber ''-32603''),
                             (''message'', JString ''Internal error''),
                             (''data'', JNumber ''0.5'')])]))"
    by (simp add: MarshalMessage_def tools_reply_def marshal_error_def member_def keyed_def
        IsNaN_def IsInf_def exponent_bits_def fraction_bits_def sample_library_def
        json_string_valid sample_texts sample_code)
  from marshal_unmarshal_generic[where m=tools_reply and k=sample_library] g w
  show ?thesis by blast
qed

text \<open>
  The claim as stated fails on a method name that is not valid UTF-8, which comes back
  with U+FFFD in place of the offending byte; on a result that is a \<^verbatim>\<open>nil\<close> slice, which
  is written as \<^verbatim>\<open>null\<close> and comes back as no result; on a result that is NaN, which
  \<^verbatim>\<open>MarshalMessage\<close> refuses; and on the requests the client sends, whose id of
  \<^verbatim>\<open>MessageIDGenerator.Next\<close> is a \<^verbatim>\<open>uint64\<close> and comes back as a \<^verbatim>\<open>float64\<close>. Each of
  these frames passes \<^verbatim>\<open>ValidateMessage\<close>.
\<close>

theorem uint64_id_not_restored:
  "ValidateMessage (CreateRequest (Generic (GString ''a'')) [CHR 0xFF] Nil
      :: (go_value, unit) Message) = None \<and>
   MarshalMessage sample_library (CreateRequest (Generic (GString ''a'')) [CHR 0xFF] Nil) =
     Inr (Document (JObject [(''jsonrpc'', JString ''2.0''), (''id'', JString ''a''),
                             (''method'', JString [CHR 0xEF, CHR 0xBF, CHR 0xBD])])) \<and>
   UnmarshalMessage sample_library
     (Document (JObject [(''jsonrpc'', JString ''2.0''), (''id'', JString ''a''),
                         (''method'', JString [CHR 0xEF, CHR 0xBF, CHR 0xBD])])) =
     Inr (CreateRequest (Generic (GString ''a'')) [CHR 0xEF, CHR 0xBF, CHR 0xBD] Nil) \<and>
   ValidateMessage (CreateResponse (Generic (GString ''a'')) (Generic GNilSlice)
      :: (go_value, unit) Message) = None \<and>
   MarshalMessage sample_library (CreateResponse (Generic (GString ''a'')) (Generic GNilSlice)) =
     Inr (Document (JObject [(''jsonrpc'', JString ''2.0''), (''id'', JString ''a''),
                             (''result'', JNull)])) \<and>
   UnmarshalMessage sample_library
     (Document (JObject [(''jsonrpc'', JString ''2.0''), (''id'', JString ''a''),
                         (''result'', JNull)])) =
     Inr (CreateResponse (Generic (GString ''a'')) Nil) \<and>
   ValidateMessage (CreateResponse (Generic (GString ''a'')) (Generic (GFloat 0x7FF8000000000001))
      :: (go_value, unit) Message) = None \<and>
   MarshalMessage sample_library
     (CreateResponse (Generic (GString ''a'')) (Generic (GFloat 0x7FF8000000000001))) =
     Inl (UnsupportedValueError ''NaN'') \<and>
   ValidateMessage (CreateRequest (Uint64 1) ''tools/list'' Nil :: (go_value, unit) Message) =
     None \<and>
   MarshalMessage sample_library (CreateRequest (Uint64 1) ''tools/list'' Nil) =
     Inr (Document (JObject [(''jsonrpc'', JString ''2.0''), (''id'', JNumber ''1''),
                             (''method'', JString ''tools/list'')])) \<and>
   UnmarshalMessage sample_library
     (Document (JObject [(''jsonrpc'', JString ''2.0''), (''id'', JNumber ''1''),
                         (''method'', JString ''tools/list'')])) =
     Inr (CreateRequest (Generic (GFloat 0x3FF0000000000000)) ''tools/list'' Nil)"
proof -
  note valid = ValidateMessage_def IsRequest_def IsResponse_def CreateRequest_def CreateResponse_def
  note enc = MarshalMessage_def CreateRequest_def CreateResponse_def marshal_error_def member_def
    json_string_valid sample_texts sample_id
  note dec = UnmarshalMessage_def zero_Message_def set_member_def message_fields read_string_def
    unmarshal_dyn_def CreateRequest_def CreateResponse_def json_string_valid sample_texts
    sample_library_def highest_def maxNestingDepth_def
  have v1: "ValidateMessage (CreateRequest (Generic (GString ''a'')) [CHR 0xFF] Nil
      :: (go_value, unit) Message) = None"
    by (simp add: valid)
  have m1: "MarshalMessage sample_library (CreateRequest (Generic (GString ''a'')) [CHR 0xFF] Nil) =
     Inr (Document (JObject [(''jsonrpc'', JString ''2.0''), (''id'', JString ''a''),
                             (''method'', JString [CHR 0xEF, CHR 0xBF, CHR 0xBD])]))"
    by (simp add: enc del: json_string.simps valid_utf8.simps)
  have u1: "UnmarshalMessage sample_library
     (Document (JObject [(''jsonrpc'', JString ''2.0''), (''id'', JString ''a''),
                         (''method'', JString [CHR 0xEF, CHR 0xBF, CHR 0xBD])])) =
     Inr (CreateRequest (Generic (GString ''a'')) [CHR 0xEF, CHR 0xBF, CHR 0xBD] Nil)"
    by (simp add: dec del: json_string.simps valid_utf8.simps)
  have v2: "ValidateMessage (CreateResponse (Generic (GString ''a'')) (Generic GNilSlice)
      :: (go_value, unit) Message) = None"
    by (simp add: valid)
  have m2: "MarshalMessage sample_library
      (CreateResponse (Generic (GString ''a'')) (Generic GNilSlice)) =
     Inr (Document (JObject [(''jsonrpc'', JString ''2.0''), (''id'', JString ''a''),
                             (''result'', JNull)]))"
    by (simp add: enc del: json_string.simps valid_utf8.simps)
  have u2: "UnmarshalMessage sample_library
     (Document (JObject [(''jsonrpc'', JString ''2.0''), (''id'', JString ''a''),
                         (''result'', JNull)])) =
     Inr (CreateResponse (Generic (GString ''a'')) Nil)"
    by (simp add: dec del: json_string.simps valid_utf8.simps)
  have v3: "ValidateMessage (CreateResponse (Generic (GString ''a''))
      (Generic (GFloat 0x7FF8000000000001)) :: (go_value, unit) Message) = None"
    by (simp add: valid)
  have nan: "IsNaN (0x7FF8000000000001 :: 64 word)"
    by (simp add: IsNaN_def exponent_bits_def fraction_bits_def)
  have m3: "MarshalMessage sample_library
     (CreateResponse (Generic (GString ''a'')) (Generic (GFloat 0x7FF8000000000001))) =
     Inl (UnsupportedValueError ''NaN'')"
    using nan by (simp add: enc unsupported_def del: json_string.simps valid_utf8.simps)
  have v4: "ValidateMessage (CreateRequest (Uint64 1) ''tools/list'' Nil
      :: (go_value, unit) Message) = None"
    by (simp add: valid)
  have m4: "MarshalMessage sample_library (CreateRequest (Uint64 1) ''tools/list'' Nil) =
     Inr (Document (JObject [(''jsonrpc'', JString ''2.0''), (''id'', JNumber ''1''),
                             (''method'', JString ''tools/list'')]))"
    by (simp add: enc del: json_string.simps valid_utf8.simps)
  have u4: "UnmarshalMessage sample_library
     (Document (JObject [(''jsonrpc'', JString ''2.0''), (''id'', JNumber ''1''),
                         (''method'', JString ''tools/list'')])) =
     Inr (CreateRequest (Generic (GFloat 0x3FF0000000000000)) ''tools/list'' Nil)"
    by (simp add: dec del: json_string.simps valid_utf8.simps)
  from v1 m1 u1 v2 m2 u2 v3 m3 v4 m4 u4 show ?thesis by blast
qed

section \<open>Properties of the identity tokens\<close>

lemma json_claims_valid:
  "valid_utf8 (UserID c) \<Longrightarrow> valid_utf8 (Username c) \<Longrightarrow> \<forall>r\<in>set (Roles c). valid_utf8 r \<Longrightarrow>
   valid_utf8 (Issuer c) \<Longrightarrow> valid_utf8 (Subject c) \<Longrightarrow> json_claims c = c"
  by (simp add: json_claims_def json_string_valid map_idI)

lemma ValidateToken_accepts:
  assumes "alg \<in> set hmac_methods" and
    "signature = mac alg (secretKey j) (Some alg, claims)" and
    "case ExpiresAt claims of None \<Rightarrow> True | Some exp \<Rightarrow> now < instant exp" and
    "case NotBefore claims of None \<Rightarrow> True | Some nbf \<Rightarrow> instant nbf \<le> now"
  shows "ValidateToken mac j now (Compact (Some alg) claims signature) = Inr claims"
proof -
  have reg: "alg \<in> set registered_methods"
    using assms(1) by (auto simp: hmac_methods_def registered_methods_def)
  have v: "validate_claims now claims = []"
    using assms(3,4) by (auto simp: validate_claims_def split: option.splits)
  show ?thesis
    using reg v assms(1,2) by (simp add: ValidateToken_def ParseWithClaims_def keyFunc_def)
qed

lemma truncated_second:
  "instant (NewNumericDate t) \<le> t \<and> t < instant (NewNumericDate t) + second"
proof -
  have pos: "0 < second" by (simp add: second_def)
  have "t = t div second * second + t mod second" by simp
  moreover have "0 \<le> t mod second" "t mod second < second"
    using pos by simp_all
  ultimately show ?thesis
    unfolding instant_def NewNumericDate_def by linarith
qed

lemma not_before_passed:
  assumes "t \<le> t'"
  shows "instant (NewNumericDate t) \<le> t'"
  using truncated_second[of t] assms by simp

lemma window_open:
  assumes "second \<le> ttl"
  shows "t < instant (NewNumericDate (t + ttl))"
  using truncated_second[of "t + ttl"] assms by simp

lemma ValidateToken_issuer_free:
  "ValidateToken mac (j\<lparr>issuer := other\<rparr>) now tokenString = ValidateToken mac j now tokenString"
proof -
  have "keyFunc (j\<lparr>issuer := other\<rparr>) = keyFunc j"
    by (rule ext) (simp add: keyFunc_def)
  then show ?thesis by (simp add: ValidateToken_def)
qed

lemma other_service_fields:
  "secretKey other_service = ''inspector-gadget-secret-key-change-in-production''"
  "tokenExpiry other_service = 24 * hour" "issuer other_service = ''another-service''"
  "secretKey server_manager = ''inspector-gadget-secret-key-change-in-production''"
  "tokenExpiry server_manager = 24 * hour" "issuer server_manager = ''inspector-gadget-os''"
  by (simp_all add: other_service_def server_manager_def NewJWTManager_def hour_def second_def)

lemma forged_written: "json_claims forged_claims = forged_claims"
  by (rule json_claims_valid) (simp_all add: forged_claims_def)

text \<open>
  C3, as the code has it. A token signed with an HMAC method under the secret of the
  manager and inside its validity window is accepted with the claims it carries,
  whatever its issuer claim; the answer of \<^verbatim>\<open>ValidateToken\<close> to any token string does
  not depend on the issuer the manager is configured with.
\<close>

theorem verify_ignores_issuer:
  "(alg \<in> set hmac_methods \<and>
    signature = mac alg (secretKey j) (Some alg, claims) \<and>
    (case ExpiresAt claims of None \<Rightarrow> True | Some exp \<Rightarrow> now < instant exp) \<and>
    (case NotBefore claims of None \<Rightarrow> True | Some nbf \<Rightarrow> instant nbf \<le> now) \<longrightarrow>
      ValidateToken mac j now (Compact (Some alg) claims signature) = Inr claims) \<and>
   ValidateToken mac (j\<lparr>issuer := other\<rparr>) now tokenString = ValidateToken mac j now tokenString"
  using ValidateToken_accepts[where alg=alg and signature=signature and mac=mac and j=j and
      claims=claims and now=now]
    ValidateToken_issuer_free[where mac=mac and j=j and other=other and now=now and
      tokenString=tokenString]
  by blast

theorem verify_ignores_issuer_witness:
  "ValidateToken plain_mac server_manager 1700000001000000000
     (Compact (Some ''HS512'') forged_claims
        (plain_mac ''HS512'' (secretKey server_manager) (Some ''HS512'', forged_claims))) =
     Inr forged_claims"
proof -
  have m: "''HS512'' \<in> set hmac_methods" by (simp add: hmac_methods_def)
  have e: "case ExpiresAt forged_claims of None \<Rightarrow> True
           | Some exp \<Rightarrow> 1700000001000000000 < instant exp"
    by (simp add: forged_claims_def instant_def second_def)
  have n: "case NotBefore forged_claims of None \<Rightarrow> True
           | Some nbf \<Rightarrow> instant nbf \<le> 1700000001000000000"
    by (simp add: forged_claims_def instant_def second_def)
  from verify_ignores_issuer[where alg="''HS512''" and mac=plain_mac and j=server_manager and
      claims=forged_claims and now=1700000001000000000 and
      signature="plain_mac ''HS512'' (secretKey server_manager) (Some ''HS512'', forged_claims)"]
    m e n
  show ?thesis by blast
qed

text \<open>
  The claim as stated fails on a token minted under the same secret by a manager
  configured with another issuer: the manager of the server returns its identity.
\<close>

theorem foreign_issuer_accepted:
  "GenerateToken plain_mac other_service 1700000000123456789 ''mallory'' ''Mallory'' [''admin''] =
     Inr forged \<and>
   ValidateToken plain_mac server_manager 1700000001000000000 forged = Inr forged_claims \<and>
   Issuer forged_claims \<noteq> issuer server_manager"
proof -
  have c: "\<lparr>UserID = ''mallory'', Username = ''Mallory'', Roles = [''admin''],
      ExpiresAt = Some (NewNumericDate (1700000000123456789 + tokenExpiry other_service)),
      IssuedAt = Some (NewNumericDate 1700000000123456789),
      NotBefore = Some (NewNumericDate 1700000000123456789),
      Issuer = issuer other_service, Subject = ''mallory''\<rparr> = forged_claims"
    by (simp add: forged_claims_def other_service_fields NewNumericDate_def hour_def second_def)
  have g: "GenerateToken plain_mac other_service 1700000000123456789 ''mallory'' ''Mallory''
      [''admin''] = Inr forged"
    unfolding GenerateToken_def Let_def c forged_written
    by (simp add: forged_def plain_mac_def other_service_fields)
  have m: "''HS256'' \<in> set hmac_methods" by (simp add: hmac_methods_def)
  have v: "ValidateToken plain_mac server_manager 1700000001000000000 forged = Inr forged_claims"
    unfolding forged_def
    by (rule ValidateToken_accepts[OF m])
       (simp_all add: plain_mac_def other_service_fields forged_claims_def instant_def second_def)
  have i: "Issuer forged_claims \<noteq> issuer server_manager"
    by (simp add: forged_claims_def other_service_fields)
  from g v i show ?thesis by blast
qed

text \<open>
  C9, as the code has it. A token minted for a subject, a display name and roles that
  are valid UTF-8 text (as is the configured issuer) and verified from the instant of
  minting on and before its expiry is accepted, and the identity returned has that
  subject, display name and roles, the configured issuer and the three dates of the
  validity window. With a configured lifetime of a second or more the instant of minting
  itself lies inside the window.
\<close>

theorem verify_fresh_token:
  "(valid_utf8 u \<and> valid_utf8 d \<and> (\<forall>r\<in>set rs. valid_utf8 r) \<and> valid_utf8 (issuer j) \<and>
    t \<le> t' \<and> t' < instant (NewNumericDate (t + tokenExpiry j)) \<longrightarrow>
      (\<exists>tok. GenerateToken mac j t u d rs = Inr tok \<and>
         ValidateToken mac j t' tok =
           Inr \<lparr>UserID = u, Username = d, Roles = rs,
                ExpiresAt = Some (NewNumericDate (t + tokenExpiry j)),
                IssuedAt = Some (NewNumericDate t), NotBefore = Some (NewNumericDate t),
                Issuer = issuer j, Subject = u\<rparr>)) \<and>
   (second \<le> tokenExpiry j \<longrightarrow> t < instant (NewNumericDate (t + tokenExpiry j)))"
proof -
  let ?c = "\<lparr>UserID = u, Username = d, Roles = rs,
             ExpiresAt = Some (NewNumericDate (t + tokenExpiry j)),
             IssuedAt = Some (NewNumericDate t), NotBefore = Some (NewNumericDate t),
             Issuer = issuer j, Subject = u\<rparr>"
  have "\<exists>tok. GenerateToken mac j t u d rs = Inr tok \<and> ValidateToken mac j t' tok = Inr ?c"
    if u: "valid_utf8 u" and d: "valid_utf8 d" and rs: "\<forall>r\<in>set rs. valid_utf8 r" and
      i: "valid_utf8 (issuer j)" and lo: "t \<le> t'" and
      hi: "t' < instant (NewNumericDate (t + tokenExpiry j))"
  proof -
    have w: "json_claims ?c = ?c"
      by (rule json_claims_valid) (use u d rs i in simp_all)
    have gen: "GenerateToken mac j t u d rs =
        Inr (Compact (Some ''HS256'') ?c (mac ''HS256'' (secretKey j) (Some ''HS256'', ?c)))"
      unfolding GenerateToken_def Let_def w by simp
    have m: "''HS256'' \<in> set hmac_methods" by (simp add: hmac_methods_def)
    have "ValidateToken mac j t'
        (Compact (Some ''HS256'') ?c (mac ''HS256'' (secretKey j) (Some ''HS256'', ?c))) = Inr ?c"
      by (rule ValidateToken_accepts[OF m refl]) (use hi not_before_passed[OF lo] in simp_all)
    with gen show ?thesis by blast
  qed
  then show ?thesis using window_open[where ttl="tokenExpiry j" and t=t] by blast
qed

theorem verify_fresh_token_witness:
  "\<exists>tok. GenerateToken plain_mac server_manager 1700000000123456789 ''user'' ''User One'' [''user''] =
       Inr tok \<and>
     ValidateToken plain_mac server_manager 1700000000123456789 tok =
       Inr \<lparr>UserID = ''user'', Username = ''User One'', Roles = [''user''],
            ExpiresAt = Some 1700086400, IssuedAt = Some 1700000000, NotBefore = Some 1700000000,
            Issuer = ''inspector-gadget-os'', Subject = ''user''\<rparr>"
proof -
  have v: "valid_utf8 ''user'' \<and> valid_utf8 ''User One'' \<and> (\<forall>r\<in>set [''user'']. valid_utf8 r) \<and>
      valid_utf8 (issuer server_manager)"
    by code_simp
  have ttl: "second \<le> tokenExpiry server_manager" by code_simp
  have dates: "NewNumericDate (1700000000123456789 + tokenExpiry server_manager) = 1700086400 \<and>
      NewNumericDate 1700000000123456789 = 1700000000 \<and>
      issuer server_manager = ''inspector-gadget-os''"
    by code_simp
  note fresh = verify_fresh_token[where u="''user''" and d="''User One''" and rs="[''user'']" and
      j=server_manager and t=1700000000123456789 and t'=1700000000123456789 and mac=plain_mac]
  from fresh ttl have "1700000000123456789 < instant (NewNumericDate (1700000000123456789 + tokenExpiry server_manager))"
    by blast
  with fresh v have "\<exists>tok. GenerateToken plain_mac server_manager 1700000000123456789 ''user'' ''User One'' [''user''] =
       Inr tok \<and>
     ValidateToken plain_mac server_manager 1700000000123456789 tok =
       Inr \<lparr>UserID = ''user'', Username = ''User One'', Roles = [''user''],
            ExpiresAt = Some (NewNumericDate (1700000000123456789 + tokenExpiry server_manager)),
            IssuedAt = Some (NewNumericDate 1700000000123456789),
            NotBefore = Some (NewNumericDate 1700000000123456789),
            Issuer = issuer server_manager, Subject = ''user''\<rparr>"
    by simp
  with dates show ?thesis by simp
qed

text \<open>
  The claim as stated fails on a subject that is not valid UTF-8: the token is minted,
  verification succeeds, and the identity returned has U+FFFD where the subject had the
  byte \<^verbatim>\<open>FF\<close>. It fails as well under a manager whose token lifetime is negative, as in
  \<^verbatim>\<open>TestJWTManager_ExpiredToken\<close>: the token just minted is refused as expired.
\<close>

theorem minted_identity_not_returned:
  "GenerateToken plain_mac server_manager 1700000000123456789 [CHR 0xFF] ''User One'' [''user''] =
     Inr replaced \<and>
   ValidateToken plain_mac server_manager 1700000000123456789 replaced = Inr replaced_claims \<and>
   UserID replaced_claims \<noteq> [CHR 0xFF] \<and>
   GenerateToken plain_mac test_manager 1700000000123456789 ''user123'' ''testuser'' [''user''] =
     Inr lapsed \<and>
   ValidateToken plain_mac test_manager 1700000000123456789 lapsed = Inl ErrTokenExpired"
proof -
  have tm: "secretKey test_manager = ''test-secret-key-12345''"
    "tokenExpiry test_manager = - hour" "issuer test_manager = ''inspector-gadget-os''"
    by (simp_all add: test_manager_def NewJWTManager_def hour_def second_def)
  have w1: "json_claims
      \<lparr>UserID = [CHR 0xFF], Username = ''User One'', Roles = [''user''],
       ExpiresAt = Some (NewNumericDate (1700000000123456789 + tokenExpiry server_manager)),
       IssuedAt = Some (NewNumericDate 1700000000123456789),
       NotBefore = Some (NewNumericDate 1700000000123456789),
       Issuer = issuer server_manager, Subject = [CHR 0xFF]\<rparr> = replaced_claims"
    by (simp add: json_claims_def replaced_claims_def other_service_fields NewNumericDate_def
        hour_def second_def)
  have g1: "GenerateToken plain_mac server_manager 1700000000123456789 [CHR 0xFF] ''User One''
      [''user''] = Inr replaced"
    unfolding GenerateToken_def Let_def w1
    by (simp add: replaced_def plain_mac_def other_service_fields)
  have m: "''HS256'' \<in> set hmac_methods" by (simp add: hmac_methods_def)
  have v1: "ValidateToken plain_mac server_manager 1700000000123456789 replaced =
      Inr replaced_claims"
    unfolding replaced_def
    by (rule ValidateToken_accepts[OF m])
       (simp_all add: plain_mac_def other_service_fields replaced_claims_def instant_def second_def)
  have n1: "UserID replaced_claims \<noteq> [CHR 0xFF]" by (simp add: replaced_claims_def)
  have w2: "json_claims
      \<lparr>UserID = ''user123'', Username = ''testuser'', Roles = [''user''],
       ExpiresAt = Some (NewNumericDate (1700000000123456789 + tokenExpiry test_manager)),
       IssuedAt = Some (NewNumericDate 1700000000123456789),
       NotBefore = Some (NewNumericDate 1700000000123456789),
       Issuer = issuer test_manager, Subject = ''user123''\<rparr> = lapsed_claims"
    by (simp add: json_claims_def lapsed_claims_def tm NewNumericDate_def hour_def second_def)
  have g2: "GenerateToken plain_mac test_manager 1700000000123456789 ''user123'' ''testuser''
      [''user''] = Inr lapsed"
    unfolding GenerateToken_def Let_def w2
    by (simp add: lapsed_def plain_mac_def tm)
  have reg: "''HS256'' \<in> set registered_methods" by (simp add: registered_methods_def)
  have v2: "ValidateToken plain_mac test_manager 1700000000123456789 lapsed = Inl ErrTokenExpired"
    using m reg
    by (simp add: ValidateToken_def ParseWithClaims_def keyFunc_def lapsed_def plain_mac_def tm
        validate_claims_def lapsed_claims_def instant_def second_def)
  from g1 v1 n1 g2 v2 show ?thesis by blast
qed

section \<open>Properties of the sandboxed file system\<close>

lemma ValidatePath_traversal_iff:
  "ValidatePath fs rt path = Some ErrPathTraversal \<longleftrightarrow> Contains (Clean path) ''..''"
  by (simp add: ValidatePath_def Let_def split: sum.splits)








lemma HasPrefix_dotdot: "HasPrefix s ''..'' \<longleftrightarrow> (\<exists>rest. s = CHR ''.'' # CHR ''.'' # rest)"
proof (cases s)
  case Nil
  then show ?thesis by (simp add: HasPrefix_def)
next
  case (Cons a s')
  then show ?thesis by (cases s') (auto simp: HasPrefix_def)
qed

lemma Contains_Cons:
  "Contains (c # s) ''..'' \<longleftrightarrow> (c = CHR ''.'' \<and> (\<exists>rest. s = CHR ''.'' # rest)) \<or> Contains s ''..''"
  by (auto simp: HasPrefix_dotdot)

lemma Contains_Nil: "\<not> Contains [] ''..''"
  by simp

lemma no_dotdot_take: "\<not> Contains s ''..'' \<Longrightarrow> \<not> Contains (take n s) ''..''"
proof (induction s arbitrary: n)
  case Nil
  then show ?case by simp
next
  case (Cons c s)
  show ?case
  proof (cases n)
    case 0
    then show ?thesis by simp
  next
    case (Suc m)
    from Cons.prems have a: "\<not> (c = CHR ''.'' \<and> (\<exists>rest. s = CHR ''.'' # rest))" and b: "\<not> Contains s ''..''"
      unfolding Contains_Cons by blast+
    have "\<not> Contains (take m s) ''..''" using Cons.IH[OF b] .
    moreover have "\<not> (c = CHR ''.'' \<and> (\<exists>rest. take m s = CHR ''.'' # rest))"
    proof
      assume h: "c = CHR ''.'' \<and> (\<exists>rest. take m s = CHR ''.'' # rest)"
      then obtain rest where "take m s = CHR ''.'' # rest" by blast
      then have "\<exists>rest'. s = CHR ''.'' # rest'"
        by (cases s; cases m) auto
      with h a show False by blast
    qed
    ultimately show ?thesis unfolding Suc take_Suc_Cons Contains_Cons by blast
  qed
qed

lemma no_dotdot_separator:
  "\<not> Contains a ''..'' \<Longrightarrow> \<not> Contains e ''..'' \<Longrightarrow> \<not> Contains (a @ CHR ''/'' # e) ''..''"
proof (induction a)
  case Nil
  then show ?case unfolding append_Nil Contains_Cons by simp
next
  case (Cons c a)
  from Cons.prems(1) have a: "\<not> (c = CHR ''.'' \<and> (\<exists>rest. a = CHR ''.'' # rest))" and b: "\<not> Contains a ''..''"
    unfolding Contains_Cons by blast+
  have ih: "\<not> Contains (a @ CHR ''/'' # e) ''..''" using Cons.IH[OF b Cons.prems(2)] .
  have "\<not> (c = CHR ''.'' \<and> (\<exists>rest. a @ CHR ''/'' # e = CHR ''.'' # rest))"
  proof
    assume h: "c = CHR ''.'' \<and> (\<exists>rest. a @ CHR ''/'' # e = CHR ''.'' # rest)"
    then obtain rest where r: "a @ CHR ''/'' # e = CHR ''.'' # rest" by blast
    then have "\<exists>rest'. a = CHR ''.'' # rest'" by (cases a) auto
    with h a show False by blast
  qed
  with ih show ?case unfolding append_Cons Contains_Cons by blast
qed

lemma backtrack_bounds: "dotdot \<le> w \<Longrightarrow> dotdot \<le> backtrack out dotdot w"
proof (induction out dotdot w rule: backtrack.induct)
  case (1 out dotdot w)
  show ?case
  proof (cases "w > dotdot \<and> \<not> IsPathSeparator (out ! w)")
    case True
    then have "dotdot \<le> w - 1" by arith
    from "1.IH"[OF True this] True show ?thesis by (subst backtrack.simps) simp
  next
    case False
    then show ?thesis using "1.prems" by (subst backtrack.simps) auto
  qed
qed

lemma clean_step_rooted:
  assumes "rooted_clean buffer" "e = ''..'' \<or> \<not> Contains e ''..''"
  shows "rooted_clean (clean_step True buffer e)"
proof -
  obtain out dotdot where b: "buffer = (out, dotdot)" by (cases buffer)
  from assms(1) b have inv: "dotdot = 1" "out \<noteq> []" "hd out = CHR ''/''" "\<not> Contains out ''..''"
    by (simp_all add: rooted_clean_def)
  show ?thesis
  proof (cases "e = [] \<or> e = ''.''")
    case True
    then show ?thesis using assms(1) b by (auto simp: clean_step_def)
  next
    case ne: False
    show ?thesis
    proof (cases "e = ''..''")
      case True
      show ?thesis
      proof (cases "length out > dotdot")
        case gt: True
        let ?w = "backtrack out dotdot (length out - 1)"
        have w: "1 \<le> ?w" using backtrack_bounds[of dotdot "length out - 1" out] gt inv(1) by simp
        have "take ?w out \<noteq> []" using w inv(2) by (cases out) auto
        moreover have "hd (take ?w out) = CHR ''/''" using w inv(2,3) by (cases out; cases ?w) auto
        moreover have "\<not> Contains (take ?w out) ''..''" using no_dotdot_take[OF inv(4)] .
        ultimately show ?thesis using True gt b inv(1) by (simp add: clean_step_def rooted_clean_def)
      next
        case False
        then show ?thesis using True assms(1) b by (simp add: clean_step_def)
      qed
    next
      case real: False
      with assms(2) have good: "\<not> Contains e ''..''" by blast
      show ?thesis
      proof (cases "length out \<noteq> 1")
        case True
        have "\<not> Contains (out @ CHR ''/'' # e) ''..''" using no_dotdot_separator[OF inv(4) good] .
        then show ?thesis using ne real True b inv by (simp add: clean_step_def rooted_clean_def)
      next
        case False
        then have out: "out = ''/''" using inv(2,3) by (cases out) auto
        have "\<not> Contains ([] @ CHR ''/'' # e) ''..''"
          by (rule no_dotdot_separator) (use good in simp_all)
        then show ?thesis using ne real b inv(1) out by (simp add: clean_step_def rooted_clean_def)
      qed
    qed
  qed
qed

lemma foldl_clean_rooted:
  "rooted_clean buffer \<Longrightarrow> \<forall>e\<in>set es. e = ''..'' \<or> \<not> Contains e ''..'' \<Longrightarrow>
   rooted_clean (foldl (clean_step True) buffer es)"
  by (induction es arbitrary: buffer) (simp_all add: clean_step_rooted)

lemma Clean_rooted_no_dotdot:
  assumes "IsAbs path" "\<forall>e\<in>set (elements path). e = ''..'' \<or> \<not> Contains e ''..''"
  shows "\<not> Contains (Clean path) ''..''"
proof -
  from assms(1) obtain rest where p: "path = CHR ''/'' # rest"
    by (cases path) (auto simp: IsAbs_def HasPrefix_def)
  have el: "elements path = [] # elements rest"
    by (simp add: p elements_def IsPathSeparator_def)
  have start: "rooted_clean (''/'', 1)" by (simp add: rooted_clean_def HasPrefix_def)
  have "rooted_clean (foldl (clean_step True) (''/'', 1) (elements rest))"
    by (rule foldl_clean_rooted[OF start]) (use assms(2) el in simp)
  then obtain out dotdot where o: "foldl (clean_step True) (''/'', 1) (elements rest) = (out, dotdot)" and
    inv: "out \<noteq> []" "\<not> Contains out ''..''"
    by (cases "foldl (clean_step True) (''/'', 1) (elements rest)") (auto simp: rooted_clean_def)
  have "Clean path = out"
    using o inv(1) by (simp add: Clean_def p IsPathSeparator_def)
  with inv(2) show ?thesis by simp
qed

text \<open>
  C1, as the code has it. \<^verbatim>\<open>ValidatePath\<close> returns \<^verbatim>\<open>ErrPathTraversal\<close> exactly when
  the cleaned path \<^verbatim>\<open>filepath.Clean(path)\<close> contains \<^verbatim>\<open>..\<close>, whatever the base roots, the
  denied paths, the extensions and the working directory. In a rooted path the \<^verbatim>\<open>..\<close>
  elements are resolved by \<^verbatim>\<open>Clean\<close>: a rooted path whose other elements do not contain
  \<^verbatim>\<open>..\<close> is never answered \<^verbatim>\<open>ErrPathTraversal\<close>.
\<close>

theorem traversal_on_cleaned_path:
  "(ValidatePath fs rt path = Some ErrPathTraversal \<longleftrightarrow> Contains (Clean path) ''..'') \<and>
   (IsAbs path \<and> (\<forall>e\<in>set (elements path). e = ''..'' \<or> \<not> Contains e ''..'') \<longrightarrow>
      ValidatePath fs rt path \<noteq> Some ErrPathTraversal)"
  using ValidatePath_traversal_iff[of fs rt path] Clean_rooted_no_dotdot[of path] by blast

theorem traversal_on_cleaned_path_witness:
  "ValidatePath server_fs unix_runtime ''../secret.txt'' = Some ErrPathTraversal \<and>
   ValidatePath server_fs unix_runtime ''/tmp/a..b.txt'' = Some ErrPathTraversal \<and>
   ValidatePath server_fs unix_runtime ''/tmp/notes.txt'' \<noteq> Some ErrPathTraversal \<and>
   ValidatePath server_fs unix_runtime ''/tmp/../../etc/shadow'' \<noteq> Some ErrPathTraversal"
proof -
  have c1: "Contains (Clean ''../secret.txt'') ''..''" by code_simp
  have c2: "Contains (Clean ''/tmp/a..b.txt'') ''..''" by code_simp
  have c3: "\<not> Contains (Clean ''/tmp/notes.txt'') ''..''" by code_simp
  have c4: "IsAbs ''/tmp/../../etc/shadow'' \<and>
      (\<forall>e\<in>set (elements ''/tmp/../../etc/shadow''). e = ''..'' \<or> \<not> Contains e ''..'')"
    by code_simp
  from c1 c2 c3 c4
    traversal_on_cleaned_path[where fs=server_fs and rt=unix_runtime and path="''../secret.txt''"]
    traversal_on_cleaned_path[where fs=server_fs and rt=unix_runtime and path="''/tmp/a..b.txt''"]
    traversal_on_cleaned_path[where fs=server_fs and rt=unix_runtime and path="''/tmp/notes.txt''"]
    traversal_on_cleaned_path[where fs=server_fs and rt=unix_runtime and
      path="''/tmp/../../etc/shadow''"]
  show ?thesis by blast
qed

text \<open>
  The claim as stated fails on paths whose \<^verbatim>\<open>..\<close> element is resolved by \<^verbatim>\<open>Clean\<close>: one
  is accepted, the other is refused as outside the base roots.
\<close>

theorem resolved_dotdot_not_traversal:
  "Contains ''/tmp/a/../b.txt'' ''..'' \<and>
   ValidatePath server_fs unix_runtime ''/tmp/a/../b.txt'' = None \<and>
   Contains ''/tmp/../etc/passwd'' ''..'' \<and>
   ValidatePath server_fs unix_runtime ''/tmp/../etc/passwd'' = Some ErrPathOutsideBase"
  by code_simp



end
